theory Spec2Isabelle
  imports Main
begin

section \<open>Text\<close>

text \<open>
  A Python \<open>str\<close> is a sequence of Unicode code points; it is modelled as a list of
  integers (the values of \<open>ord\<close>), and \<open>str\<close> turns an Isabelle string literal into one.

  The character classes below are those of CPython on the code points U+0000..U+00FF;
  \<open>is_space\<close> is the full list of Unicode white space. Above U+00FF the model knows no
  decimal digit, no alphanumeric character and no cased letter, so it follows the script
  on texts made of Latin-1 characters, Unicode white space and the en and em dashes.
\<close>

type_synonym codepoint = int
type_synonym pystr = "codepoint list"

definition str :: "string \<Rightarrow> pystr" where
  "str s = map of_char s"

definition is_space :: "codepoint \<Rightarrow> bool" where
  \<comment> \<open>\<open>\s\<close> of \<open>re\<close> and the characters removed by \<open>str.strip()\<close>\<close>
  "is_space c \<longleftrightarrow>
     (0x09 \<le> c \<and> c \<le> 0x0D) \<or> (0x1C \<le> c \<and> c \<le> 0x20) \<or> c = 0x85 \<or> c = 0xA0 \<or>
     c = 0x1680 \<or> (0x2000 \<le> c \<and> c \<le> 0x200A) \<or> c = 0x2028 \<or> c = 0x2029 \<or>
     c = 0x202F \<or> c = 0x205F \<or> c = 0x3000"

definition is_decimal :: "codepoint \<Rightarrow> bool" where
  \<comment> \<open>\<open>\d\<close> of \<open>re\<close>\<close>
  "is_decimal c \<longleftrightarrow> 0x30 \<le> c \<and> c \<le> 0x39"

definition py_isdigit_char :: "codepoint \<Rightarrow> bool" where
  \<comment> \<open>\<open>ch.isdigit()\<close>: the decimal digits and the superscripts 2, 3 and 1\<close>
  "py_isdigit_char c \<longleftrightarrow> is_decimal c \<or> c = 0xB2 \<or> c = 0xB3 \<or> c = 0xB9"

definition is_word :: "codepoint \<Rightarrow> bool" where
  \<comment> \<open>\<open>\w\<close> of \<open>re\<close>: \<open>ch.isalnum()\<close> or the underscore\<close>
  "is_word c \<longleftrightarrow>
     is_decimal c \<or> (0x41 \<le> c \<and> c \<le> 0x5A) \<or> (0x61 \<le> c \<and> c \<le> 0x7A) \<or> c = 0x5F \<or>
     c = 0xAA \<or> c = 0xB2 \<or> c = 0xB3 \<or> c = 0xB5 \<or> c = 0xB9 \<or> c = 0xBA \<or>
     (0xBC \<le> c \<and> c \<le> 0xBE) \<or> (0xC0 \<le> c \<and> c \<le> 0xD6) \<or>
     (0xD8 \<le> c \<and> c \<le> 0xF6) \<or> (0xF8 \<le> c \<and> c \<le> 0xFF)"

definition lower_char :: "codepoint \<Rightarrow> codepoint" where
  "lower_char c =
     (if (0x41 \<le> c \<and> c \<le> 0x5A) \<or> (0xC0 \<le> c \<and> c \<le> 0xDE \<and> c \<noteq> 0xD7) then c + 0x20 else c)"

definition py_lower :: "pystr \<Rightarrow> pystr" where
  "py_lower s = map lower_char s"

definition strip_with :: "(codepoint \<Rightarrow> bool) \<Rightarrow> pystr \<Rightarrow> pystr" where
  "strip_with P s = rev (dropWhile P (rev (dropWhile P s)))"

definition py_strip :: "pystr \<Rightarrow> pystr" where
  \<comment> \<open>\<open>s.strip()\<close>\<close>
  "py_strip s = strip_with is_space s"

definition py_strip_chars :: "pystr \<Rightarrow> pystr \<Rightarrow> pystr" where
  \<comment> \<open>\<open>s.strip(chars)\<close>\<close>
  "py_strip_chars chars s = strip_with (\<lambda>c. c \<in> set chars) s"

function py_replace :: "pystr \<Rightarrow> pystr \<Rightarrow> pystr \<Rightarrow> pystr" where
  \<comment> \<open>\<open>s.replace(old, new)\<close> for a non-empty \<open>old\<close>\<close>
  "py_replace old new [] = []"
| "py_replace old new (c # cs) =
     (if old \<noteq> [] \<and> take (length old) (c # cs) = old
      then new @ py_replace old new (drop (length old) (c # cs))
      else c # py_replace old new cs)"
  by pat_completeness auto
termination
  by (relation "measure (\<lambda>(old, new, s). length s)") auto

fun py_split :: "codepoint \<Rightarrow> pystr \<Rightarrow> pystr list" where
  \<comment> \<open>\<open>s.split(sep)\<close> for a separator of one character\<close>
  "py_split sep [] = [[]]"
| "py_split sep (c # cs) =
     (if c = sep then [] # py_split sep cs
      else (case py_split sep cs of [] \<Rightarrow> [[c]] | p # ps \<Rightarrow> (c # p) # ps))"

definition py_split_ws :: "pystr \<Rightarrow> pystr list" where
  \<comment> \<open>\<open>s.split()\<close>: the maximal runs of characters that are not white space\<close>
  "py_split_ws s =
     filter (\<lambda>w. w \<noteq> [])
       (foldr (\<lambda>c acc. if is_space c then [] # acc
                        else (case acc of [] \<Rightarrow> [[c]] | p # ps \<Rightarrow> (c # p) # ps)) s [[]])"

fun py_contains :: "pystr \<Rightarrow> pystr \<Rightarrow> bool" where
  \<comment> \<open>\<open>sub in s\<close>\<close>
  "py_contains sub [] = (sub = [])"
| "py_contains sub (c # cs) = (take (length sub) (c # cs) = sub \<or> py_contains sub cs)"

fun py_join :: "pystr \<Rightarrow> pystr list \<Rightarrow> pystr" where
  \<comment> \<open>\<open>sep.join(xs)\<close>\<close>
  "py_join sep [] = []"
| "py_join sep [x] = x"
| "py_join sep (x # y # ys) = x @ sep @ py_join sep (y # ys)"

definition digit_value :: "codepoint \<Rightarrow> int" where
  "digit_value c = c - 0x30"

definition digits_value :: "pystr \<Rightarrow> int" where
  "digits_value s = foldl (\<lambda>n c. 10 * n + digit_value c) 0 s"

datatype exn = ValueError pystr | OverflowError

function digits_of :: "int \<Rightarrow> pystr" where
  \<comment> \<open>the decimal digits of a number that is not negative\<close>
  "digits_of n = (if n < 10 then [0x30 + n] else digits_of (n div 10) @ [0x30 + n mod 10])"
  by pat_completeness auto
termination
  by (relation "measure nat") auto

declare digits_of.simps [simp del]

definition py_str_int :: "int \<Rightarrow> pystr" where
  \<comment> \<open>\<open>f"{n}"\<close>\<close>
  "py_str_int n = (if n < 0 then 0x2D # digits_of (- n) else digits_of n)"

definition py_int :: "pystr \<Rightarrow> exn + int" where
  \<comment> \<open>\<open>int(s)\<close> on the texts the script passes: white space around the digits is
      dropped; anything but decimal digits is refused, and so is a numeral of more than
      4300 digits (CPython 3.11)\<close>
  "py_int s =
     (let t = py_strip s in
      if t = [] \<or> \<not> list_all is_decimal t
      then Inl (ValueError (str ''invalid literal for int() with base 10: '' @ [0x27] @ s @ [0x27]))
      else if 4300 < int (length t)
      then Inl (ValueError (str ''Exceeds the limit (4300 digits) for integer string conversion: value has ''
                              @ py_str_int (int (length t))
                              @ str '' digits; use sys.set_int_max_str_digits() to increase the limit''))
      else Inr (digits_value t))"

section \<open>Regular expressions\<close>

text \<open>
  A pattern is a backtracking matcher: from the captured groups, the character before the
  current position and the text from the current position on, it gives every way to match
  there, in the order in which \<open>re\<close> tries them. The first element is the match that
  \<open>re\<close> reports.
\<close>

type_synonym captures = "(string \<times> pystr) list"
type_synonym mstate = "captures \<times> codepoint option \<times> pystr"
type_synonym matcher = "mstate \<Rightarrow> mstate list"

definition m_eps :: matcher where
  "m_eps st = [st]"

definition m_cls :: "(codepoint \<Rightarrow> bool) \<Rightarrow> matcher" where
  \<comment> \<open>one character of a class\<close>
  "m_cls P st =
     (case st of (caps, prev, s) \<Rightarrow>
        (case s of [] \<Rightarrow> [] | c # cs \<Rightarrow> if P c then [(caps, Some c, cs)] else []))"

definition m_chr :: "codepoint \<Rightarrow> matcher" where
  \<comment> \<open>a literal character under \<open>re.IGNORECASE\<close>\<close>
  "m_chr p = m_cls (\<lambda>c. lower_char c = lower_char p)"

definition m_seq :: "matcher \<Rightarrow> matcher \<Rightarrow> matcher" where
  "m_seq a b st = concat (map b (a st))"

definition m_alt :: "matcher \<Rightarrow> matcher \<Rightarrow> matcher" where
  "m_alt a b st = a st @ b st"

definition m_opt :: "matcher \<Rightarrow> matcher" where
  \<comment> \<open>greedy \<open>?\<close>\<close>
  "m_opt a = m_alt a m_eps"

definition m_seqs :: "matcher list \<Rightarrow> matcher" where
  "m_seqs ms = foldr m_seq ms m_eps"

definition m_alts :: "matcher list \<Rightarrow> matcher" where
  "m_alts ms st = concat (map (\<lambda>m. m st) ms)"

definition m_lit :: "pystr \<Rightarrow> matcher" where
  "m_lit ps = m_seqs (map m_chr ps)"

definition m_plus :: "(codepoint \<Rightarrow> bool) \<Rightarrow> matcher" where
  \<comment> \<open>greedy \<open>+\<close> on a class: the longest run first\<close>
  "m_plus P st =
     (case st of (caps, prev, s) \<Rightarrow>
        map (\<lambda>k. (caps, Some (s ! (k - 1)), drop k s))
            (rev [1 ..< Suc (length (takeWhile P s))]))"

definition is_word_opt :: "codepoint option \<Rightarrow> bool" where
  "is_word_opt x = (case x of None \<Rightarrow> False | Some c \<Rightarrow> is_word c)"

definition next_char :: "pystr \<Rightarrow> codepoint option" where
  "next_char s = (case s of [] \<Rightarrow> None | c # _ \<Rightarrow> Some c)"

definition m_wb :: matcher where
  \<comment> \<open>\<open>\b\<close>\<close>
  "m_wb st =
     (case st of (caps, prev, s) \<Rightarrow>
        if is_word_opt prev \<noteq> is_word_opt (next_char s) then [st] else [])"

definition m_behind :: "(codepoint \<Rightarrow> bool) \<Rightarrow> matcher" where
  \<comment> \<open>\<open>(?<=c)\<close> for a class\<close>
  "m_behind P st =
     (case st of (caps, prev, s) \<Rightarrow>
        (case prev of None \<Rightarrow> [] | Some c \<Rightarrow> if P c then [st] else []))"

definition m_ahead :: "(codepoint \<Rightarrow> bool) \<Rightarrow> matcher" where
  \<comment> \<open>\<open>(?=c)\<close> for a class\<close>
  "m_ahead P st =
     (case st of (caps, prev, s) \<Rightarrow>
        (case s of [] \<Rightarrow> [] | c # _ \<Rightarrow> if P c then [st] else []))"

definition m_group :: "string \<Rightarrow> matcher \<Rightarrow> matcher" where
  \<comment> \<open>\<open>(?P<name>...)\<close>\<close>
  "m_group name m st =
     (case st of (caps, prev, s) \<Rightarrow>
        map (\<lambda>(caps', prev', s'). (caps' @ [(name, take (length s - length s') s)], prev', s'))
            (m st))"

definition first_match :: "matcher \<Rightarrow> codepoint option \<Rightarrow> pystr \<Rightarrow> (pystr \<times> captures \<times> codepoint option \<times> pystr) option" where
  \<comment> \<open>the match at the current position: the matched text, the groups, the last
      character before the rest, and the rest\<close>
  "first_match m prev s =
     (case m ([], prev, s) of
        [] \<Rightarrow> None
      | (caps, p, rest) # _ \<Rightarrow> Some (take (length s - length rest) s, caps, p, rest))"

definition re_match :: "matcher \<Rightarrow> pystr \<Rightarrow> (pystr \<times> captures \<times> codepoint option \<times> pystr) option" where
  \<comment> \<open>\<open>pattern.match(s)\<close>\<close>
  "re_match m s = first_match m None s"

fun re_search_from :: "matcher \<Rightarrow> codepoint option \<Rightarrow> pystr \<Rightarrow> (pystr \<times> captures) option" where
  "re_search_from m prev [] =
     (case first_match m prev [] of None \<Rightarrow> None | Some (g, caps, _, _) \<Rightarrow> Some (g, caps))"
| "re_search_from m prev (c # cs) =
     (case first_match m prev (c # cs) of
        Some (g, caps, _, _) \<Rightarrow> Some (g, caps)
      | None \<Rightarrow> re_search_from m (Some c) cs)"

definition re_search :: "matcher \<Rightarrow> pystr \<Rightarrow> (pystr \<times> captures) option" where
  \<comment> \<open>\<open>pattern.search(s)\<close>: the leftmost match, as its text and its groups\<close>
  "re_search m s = re_search_from m None s"

function re_sub_from :: "matcher \<Rightarrow> pystr \<Rightarrow> codepoint option \<Rightarrow> pystr \<Rightarrow> pystr" where
  "re_sub_from m repl prev [] = []"
| "re_sub_from m repl prev (c # cs) =
     (case first_match m prev (c # cs) of
        None \<Rightarrow> c # re_sub_from m repl (Some c) cs
      | Some (g, caps, p, rest) \<Rightarrow>
          if length rest < length (c # cs) then repl @ re_sub_from m repl p rest
          else c # re_sub_from m repl (Some c) cs)"
  by pat_completeness auto
termination
  by (relation "measure (\<lambda>(m, repl, prev, s). length s)") auto

definition re_sub :: "matcher \<Rightarrow> pystr \<Rightarrow> pystr \<Rightarrow> pystr" where
  \<comment> \<open>\<open>pattern.sub(repl, s)\<close> for a pattern that matches no empty text (every pattern of
      the script needs at least one character)\<close>
  "re_sub m repl s = re_sub_from m repl None s"

definition collapse_ws :: "pystr \<Rightarrow> pystr" where
  \<comment> \<open>\<open>re.sub(r"\s+", " ", s)\<close>\<close>
  "collapse_ws s = re_sub (m_plus is_space) (str '' '') s"

section \<open>Timestamps\<close>

text \<open>
  A \<open>date\<close> is modelled by its proleptic Gregorian ordinal (\<open>date.toordinal()\<close>, day 1
  is 0001-01-01), a \<open>timedelta\<close> by its number of seconds, and a \<open>datetime\<close> by the
  ordinal of its date and its time of day. The script never produces a fraction of a
  second. Every timestamp of one run carries the same \<open>tzinfo\<close> object (the module
  constant \<open>DEFAULT_TIMEZONE\<close>, or none), and Python compares, adds to and subtracts
  such timestamps by their wall-clock fields alone, so the field is left out.
\<close>

type_synonym date = int
type_synonym timedelta = int

record datetime =
  dt_date :: date
  dt_hour :: int
  dt_minute :: int
  dt_second :: int

definition MAXORDINAL :: int where
  \<comment> \<open>the ordinal of 9999-12-31\<close>
  "MAXORDINAL = 3652059"

definition DEFAULT_SINGLE_EVENT_DURATION :: timedelta where
  \<comment> \<open>\<open>timedelta(hours=1)\<close>\<close>
  "DEFAULT_SINGLE_EVENT_DURATION = 3600"

definition one_day :: timedelta where
  \<comment> \<open>\<open>timedelta(days=1)\<close>\<close>
  "one_day = 86400"

definition seconds_of_day :: "datetime \<Rightarrow> int" where
  "seconds_of_day t = dt_hour t * 3600 + dt_minute t * 60 + dt_second t"

definition dt_le :: "datetime \<Rightarrow> datetime \<Rightarrow> bool" where
  \<comment> \<open>\<open>a <= b\<close>: the fields compared in order\<close>
  "dt_le a b \<longleftrightarrow>
     dt_date a < dt_date b \<or>
     (dt_date a = dt_date b \<and>
       (dt_hour a < dt_hour b \<or>
        (dt_hour a = dt_hour b \<and>
          (dt_minute a < dt_minute b \<or>
           (dt_minute a = dt_minute b \<and> dt_second a \<le> dt_second b)))))"

definition dt_less :: "datetime \<Rightarrow> datetime \<Rightarrow> bool" where
  \<comment> \<open>\<open>a < b\<close>\<close>
  "dt_less a b \<longleftrightarrow> dt_le a b \<and> a \<noteq> b"

definition dt_add :: "datetime \<Rightarrow> timedelta \<Rightarrow> exn + datetime" where
  \<comment> \<open>\<open>t + delta\<close>: \<open>OverflowError\<close> when the day leaves 0001-01-01..9999-12-31\<close>
  "dt_add t delta =
     (let total = seconds_of_day t + delta;
          days = dt_date t + total div 86400;
          secs = total mod 86400
      in if 0 < days \<and> days \<le> MAXORDINAL
         then Inr \<lparr>dt_date = days, dt_hour = secs div 3600,
                   dt_minute = (secs mod 3600) div 60, dt_second = secs mod 60\<rparr>
         else Inl OverflowError)"

definition dt_sub :: "datetime \<Rightarrow> datetime \<Rightarrow> timedelta" where
  \<comment> \<open>\<open>a - b\<close>\<close>
  "dt_sub a b = (dt_date a - dt_date b) * 86400 + (seconds_of_day a - seconds_of_day b)"

definition ebind :: "exn + 'a \<Rightarrow> ('a \<Rightarrow> exn + 'b) \<Rightarrow> exn + 'b" where
  \<comment> \<open>run the rest on a result, pass an exception on\<close>
  "ebind r f = (case r of Inl e \<Rightarrow> Inl e | Inr x \<Rightarrow> f x)"

section \<open>The calendar\<close>

text \<open>The proleptic Gregorian calendar of the \<open>datetime\<close> module.\<close>

definition is_leap :: "int \<Rightarrow> bool" where
  "is_leap year \<longleftrightarrow> year mod 4 = 0 \<and> (year mod 100 \<noteq> 0 \<or> year mod 400 = 0)"

definition days_in_month :: "int \<Rightarrow> int \<Rightarrow> int" where
  "days_in_month year month =
     (if month = 2 then (if is_leap year then 29 else 28)
      else if month = 4 \<or> month = 6 \<or> month = 9 \<or> month = 11 then 30 else 31)"

definition days_before_year :: "int \<Rightarrow> int" where
  "days_before_year year =
     (let y = year - 1 in y * 365 + y div 4 - y div 100 + y div 400)"

definition days_before_month :: "int \<Rightarrow> int \<Rightarrow> int" where
  "days_before_month year month =
     ([0, 31, 59, 90, 120, 151, 181, 212, 243, 273, 304, 334] ! nat (month - 1))
     + (if 2 < month \<and> is_leap year then 1 else 0)"

definition ymd2ord :: "int \<Rightarrow> int \<Rightarrow> int \<Rightarrow> date" where
  \<comment> \<open>the ordinal of a valid year, month and day\<close>
  "ymd2ord year month day = days_before_year year + days_before_month year month + day"

definition MAX_C_INT :: int where
  "MAX_C_INT = 2147483647"

definition new_date :: "int \<Rightarrow> int \<Rightarrow> int \<Rightarrow> exn + date" where
  \<comment> \<open>\<open>datetime(year, month, day).date()\<close>: CPython reads the arguments as C integers
      and checks the ranges\<close>
  "new_date year month day =
     (if MAX_C_INT < \<bar>year\<bar> \<or> MAX_C_INT < \<bar>month\<bar> \<or> MAX_C_INT < \<bar>day\<bar> then Inl OverflowError
      else if year < 1 \<or> 9999 < year
      then Inl (ValueError (str ''year '' @ py_str_int year @ str '' is out of range''))
      else if month < 1 \<or> 12 < month then Inl (ValueError (str ''month must be in 1..12''))
      else if day < 1 \<or> days_in_month year month < day
      then Inl (ValueError (str ''day is out of range for month''))
      else Inr (ymd2ord year month day))"

section \<open>Time parsing\<close>

definition MERIDIEM_PATTERN :: matcher where
  \<comment> \<open>\<open>(a\.?m\.?|p\.?m\.?)\<close>, ignoring case\<close>
  "MERIDIEM_PATTERN =
     m_alt (m_seqs [m_lit (str ''a''), m_opt (m_lit (str ''.'')), m_lit (str ''m''), m_opt (m_lit (str ''.''))])
           (m_seqs [m_lit (str ''p''), m_opt (m_lit (str ''.'')), m_lit (str ''m''), m_opt (m_lit (str ''.''))])"

definition TZ_LABEL_PATTERN :: matcher where
  \<comment> \<open>\<open>\b(?:cet|cest|gmt|utc(?:[+\-]\d{1,2})?|mez|mesz)\b\<close>, ignoring case\<close>
  "TZ_LABEL_PATTERN =
     m_seqs [m_wb,
       m_alts [m_lit (str ''cet''), m_lit (str ''cest''), m_lit (str ''gmt''),
               m_seqs [m_lit (str ''utc''),
                       m_opt (m_seqs [m_cls (\<lambda>c. c \<in> set (str ''+-'')),
                                      m_cls is_decimal, m_opt (m_cls is_decimal)])],
               m_lit (str ''mez''), m_lit (str ''mesz'')],
       m_wb]"

definition RANGE_CONNECTOR_PATTERN :: matcher where
  \<comment> \<open>\<open>\b(?:to|bis)\b\<close>, ignoring case\<close>
  "RANGE_CONNECTOR_PATTERN = m_seqs [m_wb, m_alts [m_lit (str ''to''), m_lit (str ''bis'')], m_wb]"

definition EXTRA_LABEL_PATTERN :: matcher where
  \<comment> \<open>\<open>\b(?:hrs?|hours?|uhr|o'clock|h)\b\<close>, ignoring case\<close>
  "EXTRA_LABEL_PATTERN =
     m_seqs [m_wb,
       m_alts [m_seqs [m_lit (str ''hr''), m_opt (m_lit (str ''s''))],
               m_seqs [m_lit (str ''hour''), m_opt (m_lit (str ''s''))],
               m_lit (str ''uhr''),
               m_lit (str ''o'' @ [0x27] @ str ''clock''),
               m_lit (str ''h'')],
       m_wb]"

definition TIME_CORE_PATTERN :: matcher where
  \<comment> \<open>\<open>(?P<hour>\d{1,2})(?::(?P<minute>\d{2}))?\<close>\<close>
  "TIME_CORE_PATTERN =
     m_seqs [m_group ''hour'' (m_seqs [m_cls is_decimal, m_opt (m_cls is_decimal)]),
             m_opt (m_seqs [m_lit (str '':''),
                            m_group ''minute'' (m_seqs [m_cls is_decimal, m_cls is_decimal])])]"

definition sanitize_time_fragment :: "pystr \<Rightarrow> pystr" where
  "sanitize_time_fragment fragment0 =
     (let fragment = py_replace (str ''a.m.'') (str ''am'') (py_replace (str ''p.m.'') (str ''pm'') fragment0);
          fragment = re_sub (m_seqs [m_behind is_decimal, m_lit (str ''h''), m_ahead is_decimal]) (str '':'') fragment;
          fragment = re_sub (m_seqs [m_behind is_decimal, m_lit (str ''.''), m_ahead is_decimal]) (str '':'') fragment;
          fragment = re_sub TZ_LABEL_PATTERN [] fragment;
          fragment = re_sub EXTRA_LABEL_PATTERN [] fragment;
          fragment = py_replace (str ''midday'') (str ''noon'') fragment;
          fragment = py_replace [0xB7] (str '' '') fragment;
          fragment = re_sub (m_cls (\<lambda>c. c \<in> set (str ''()''))) (str '' '') fragment;
          fragment = collapse_ws fragment
      in py_strip fragment)"

definition extract_meridiem_label :: "pystr \<Rightarrow> pystr option" where
  "extract_meridiem_label text =
     (case re_search MERIDIEM_PATTERN text of
        None \<Rightarrow> None
      | Some (g, caps) \<Rightarrow>
          Some (if py_contains (str ''p'') (py_lower g) then str ''pm'' else str ''am''))"

definition convert_to_24_hour :: "int \<Rightarrow> pystr option \<Rightarrow> int" where
  "convert_to_24_hour hour0 meridiem =
     (let hour = hour0 mod 24 in
      if meridiem = None then hour
      else if meridiem = Some (str ''am'') then (if hour = 12 then 0 else hour)
      else (if hour = 12 then 12 else hour + 12))"

definition truthy :: "pystr option \<Rightarrow> bool" where
  \<comment> \<open>the truth value of a text or \<open>None\<close>\<close>
  "truthy x \<longleftrightarrow> x \<noteq> None \<and> x \<noteq> Some []"

definition py_or :: "pystr option \<Rightarrow> pystr option \<Rightarrow> pystr option" where
  \<comment> \<open>\<open>a or b\<close>\<close>
  "py_or a b = (if truthy a then a else b)"

definition parse_time_fragment :: "pystr \<Rightarrow> pystr option \<Rightarrow> bool \<Rightarrow> exn + (int \<times> int)" where
  \<comment> \<open>\<open>int\<close> is applied to groups of one or two decimal digits, where it cannot fail\<close>
  "parse_time_fragment fragment default_meridiem prefer_12_hour0 =
     (let sanitized = sanitize_time_fragment fragment in
      if sanitized = [] then Inl (ValueError (str ''Empty time fragment''))
      else
        let lowered = py_lower sanitized in
        if lowered = str ''noon'' then Inr (12, 0)
        else if lowered = str ''midnight'' then Inr (0, 0)
        else
          (case re_search TIME_CORE_PATTERN sanitized of
             None \<Rightarrow>
               Inl (ValueError (str ''Could not parse time from '' @ [0x27] @ fragment @ [0x27]))
           | Some (g, caps) \<Rightarrow>
               let hour = (case map_of caps ''hour'' of None \<Rightarrow> 0 | Some h \<Rightarrow> digits_value h);
                   minute = (case map_of caps ''minute'' of None \<Rightarrow> 0 | Some m \<Rightarrow> digits_value m);
                   meridiem = extract_meridiem_label sanitized;
                   prefer_12_hour = (if truthy meridiem then True else prefer_12_hour0);
                   meridiem = (if meridiem = None \<and> prefer_12_hour \<and> truthy default_meridiem \<and> hour \<le> 12
                               then default_meridiem else meridiem)
               in Inr (convert_to_24_hour hour meridiem, minute)))"

definition assemble_datetime :: "date \<Rightarrow> int \<Rightarrow> int \<Rightarrow> exn + datetime" where
  \<comment> \<open>\<open>time(hour=hour % 24, minute=minute)\<close> refuses a minute outside 0..59\<close>
  "assemble_datetime event_date hour minute =
     (if 0 \<le> minute \<and> minute \<le> 59
      then Inr \<lparr>dt_date = event_date, dt_hour = hour mod 24, dt_minute = minute, dt_second = 0\<rparr>
      else Inl (ValueError (str ''minute must be in 0..59'')))"

definition looks_like_time_range :: "pystr \<Rightarrow> bool" where
  "looks_like_time_range text =
     (let lowered = py_lower text in
      if re_search (m_cls (\<lambda>c. c = 0x2D \<or> c = 0x2013 \<or> c = 0x2014)) text \<noteq> None
         \<and> re_search (m_cls is_decimal) text \<noteq> None
      then True
      else if py_contains (str '' to '') lowered \<or> py_contains (str '' bis '') lowered then True
      else False)"

definition normalize_time_range :: "pystr \<Rightarrow> pystr" where
  \<comment> \<open>the first lines of \<open>parse_time_components\<close>: the value of \<open>normalized\<close>\<close>
  "normalize_time_range time_range =
     (let normalized = re_sub RANGE_CONNECTOR_PATTERN (str ''-'') time_range;
          normalized = py_replace [0x2014] (str ''-'') (py_replace [0x2013] (str ''-'') normalized);
          normalized = re_sub TZ_LABEL_PATTERN [] normalized;
          normalized = re_sub EXTRA_LABEL_PATTERN [] normalized
      in py_strip_chars (str '' -'') (collapse_ws normalized))"

definition range_parts :: "pystr \<Rightarrow> pystr list" where
  \<comment> \<open>\<open>[part.strip() for part in normalized.split("-") if part.strip()]\<close>\<close>
  "range_parts normalized =
     map py_strip (filter (\<lambda>part. py_strip part \<noteq> []) (py_split 0x2D normalized))"

definition single_time :: "pystr \<Rightarrow> date \<Rightarrow> exn + (datetime \<times> datetime)" where
  \<comment> \<open>the branch \<open>len(parts) == 1\<close> of \<open>parse_time_components\<close>\<close>
  "single_time start_part event_date =
     (let start_hint = extract_meridiem_label start_part
      in ebind (parse_time_fragment start_part start_hint (truthy start_hint))
           (\<lambda>(start_hour, start_minute).
         ebind (assemble_datetime event_date start_hour start_minute) (\<lambda>start_dt.
         ebind (dt_add start_dt DEFAULT_SINGLE_EVENT_DURATION) (\<lambda>end_dt.
         Inr (start_dt, end_dt)))))"

definition rollover :: "date \<Rightarrow> int \<times> int \<Rightarrow> int \<times> int \<Rightarrow> exn + (datetime \<times> datetime)" where
  \<comment> \<open>the last lines of \<open>parse_time_components\<close>: both times on the event date, the end
      moved by one day when it is not after the start\<close>
  "rollover event_date start end =
     (case (start, end) of ((start_hour, start_minute), (end_hour, end_minute)) \<Rightarrow>
        ebind (assemble_datetime event_date start_hour start_minute) (\<lambda>start_dt.
        ebind (assemble_datetime event_date end_hour end_minute) (\<lambda>end_dt.
        if dt_le end_dt start_dt
        then ebind (dt_add end_dt one_day) (\<lambda>end_dt. Inr (start_dt, end_dt))
        else Inr (start_dt, end_dt))))"

definition two_part_range :: "pystr \<Rightarrow> pystr \<Rightarrow> date \<Rightarrow> exn + (datetime \<times> datetime)" where
  \<comment> \<open>\<open>parse_time_components\<close> from \<open>start_part, end_part = parts[0], parts[1]\<close> on\<close>
  "two_part_range start_part end_part event_date =
     (let start_hint = extract_meridiem_label start_part;
          end_hint = extract_meridiem_label end_part;
          start_default = py_or start_hint end_hint;
          end_default = py_or end_hint start_hint;
          prefer_12_hour = truthy (py_or start_hint end_hint)
      in ebind (parse_time_fragment start_part start_default prefer_12_hour) (\<lambda>start.
         ebind (parse_time_fragment end_part end_default prefer_12_hour) (\<lambda>end.
         rollover event_date start end)))"

definition parse_time_components :: "pystr \<Rightarrow> date \<Rightarrow> exn + (datetime \<times> datetime)" where
  "parse_time_components time_range event_date =
     (let normalized = normalize_time_range time_range in
      if normalized = [] then Inl (ValueError (str ''Empty time range: '' @ time_range))
      else
        let parts = range_parts normalized in
        if length parts = 1 then single_time (parts ! 0) event_date
        else if length parts < 2
        then Inl (ValueError (str ''Unexpected time range: '' @ time_range))
        else two_part_range (parts ! 0) (parts ! 1) event_date)"

section \<open>Date texts\<close>

text \<open>
  \<open>datetime.strptime\<close> turns the format into a regular expression, matches it at the
  start of the text without regard to case, refuses a match that leaves text over, and
  builds the date from the groups; the year is 1900 and month and day are 1 when the
  format has no directive for them. Only the directives of the script are modelled
  (\<open>%B %b %d %m %Y %y\<close>), with the month names of the C locale, which the script never
  changes. Every failure of \<open>strptime\<close> is a \<open>ValueError\<close>, and the script catches each
  one on the spot, so a failure is \<open>None\<close> here.
\<close>

definition f_month :: "pystr list" where
  "f_month = map str [''january'', ''february'', ''march'', ''april'', ''may'', ''june'', ''july'',
     ''august'', ''september'', ''october'', ''november'', ''december'']"

definition a_month :: "pystr list" where
  "a_month = map str [''jan'', ''feb'', ''mar'', ''apr'', ''may'', ''jun'', ''jul'',
     ''aug'', ''sep'', ''oct'', ''nov'', ''dec'']"

definition month_name :: "int \<Rightarrow> pystr" where
  \<comment> \<open>\<open>strftime("%B")\<close> of a date in the month\<close>
  "month_name month =
     map str [''January'', ''February'', ''March'', ''April'', ''May'', ''June'', ''July'',
       ''August'', ''September'', ''October'', ''November'', ''December''] ! nat (month - 1)"

definition by_length_desc :: "pystr list \<Rightarrow> pystr list" where
  \<comment> \<open>\<open>sorted(xs, key=len, reverse=True)\<close>: a stable sort, the longest first\<close>
  "by_length_desc xs = rev (sort_key length (rev xs))"

definition m_range :: "codepoint \<Rightarrow> codepoint \<Rightarrow> matcher" where
  \<comment> \<open>\<open>[a-b]\<close>\<close>
  "m_range a b = m_cls (\<lambda>c. a \<le> c \<and> c \<le> b)"

definition m_fail :: matcher where
  "m_fail st = []"

definition directive :: "codepoint \<Rightarrow> matcher" where
  "directive d =
     (if d = 0x42 then m_group ''B'' (m_alts (map m_lit (by_length_desc f_month)))
      else if d = 0x62 then m_group ''b'' (m_alts (map m_lit (by_length_desc a_month)))
      else if d = 0x64 then
        m_group ''d'' (m_alts [m_seqs [m_lit (str ''3''), m_range 0x30 0x31],
                              m_seqs [m_range 0x31 0x32, m_cls is_decimal],
                              m_seqs [m_lit (str ''0''), m_range 0x31 0x39],
                              m_range 0x31 0x39,
                              m_seqs [m_lit (str '' ''), m_range 0x31 0x39]])
      else if d = 0x6D then
        m_group ''m'' (m_alts [m_seqs [m_lit (str ''1''), m_range 0x30 0x32],
                              m_seqs [m_lit (str ''0''), m_range 0x31 0x39],
                              m_range 0x31 0x39])
      else if d = 0x59 then
        m_group ''Y'' (m_seqs [m_cls is_decimal, m_cls is_decimal, m_cls is_decimal, m_cls is_decimal])
      else if d = 0x79 then m_group ''y'' (m_seqs [m_cls is_decimal, m_cls is_decimal])
      else m_fail)"

function format_regex :: "pystr \<Rightarrow> matcher" where
  \<comment> \<open>the pattern of a format: a run of white space is \<open>\s+\<close>, \<open>%x\<close> is the pattern of
      the directive, any other character is itself\<close>
  "format_regex [] = m_eps"
| "format_regex (c # cs) =
     (if c = 0x25 then
        (case cs of [] \<Rightarrow> m_fail | d # ds \<Rightarrow> m_seq (directive d) (format_regex ds))
      else if is_space c then m_seq (m_plus is_space) (format_regex (dropWhile is_space cs))
      else m_seq (m_chr c) (format_regex cs))"
  by pat_completeness auto
termination
  by (relation "measure length") (auto simp: less_Suc_eq_le length_dropWhile_le)

definition index_of :: "'a \<Rightarrow> 'a list \<Rightarrow> int" where
  \<comment> \<open>\<open>xs.index(x)\<close> for an \<open>x\<close> that is in \<open>xs\<close>\<close>
  "index_of x xs = int (length (takeWhile (\<lambda>y. y \<noteq> x) xs))"

record ymd =
  year :: int
  month :: int
  day :: int

definition strptime :: "pystr \<Rightarrow> pystr \<Rightarrow> ymd option" where
  "strptime data_string format =
     (case re_match (format_regex format) data_string of
        None \<Rightarrow> None
      | Some (g, found, p, rest) \<Rightarrow>
          if rest \<noteq> [] then None
          else
            let y = (case map_of found ''y'' of
                       Some v \<Rightarrow> Some (if digits_value v \<le> 68 then digits_value v + 2000
                                        else digits_value v + 1900)
                     | None \<Rightarrow>
                         (case map_of found ''Y'' of
                            Some v \<Rightarrow> Some (digits_value v)
                          | None \<Rightarrow> None));
                m = (case map_of found ''m'' of
                       Some v \<Rightarrow> digits_value v
                     | None \<Rightarrow>
                        (case map_of found ''B'' of
                           Some v \<Rightarrow> index_of (py_lower v) f_month + 1
                         | None \<Rightarrow>
                            (case map_of found ''b'' of
                               Some v \<Rightarrow> index_of (py_lower v) a_month + 1
                             | None \<Rightarrow> 1)));
                d = (case map_of found ''d'' of
                       Some v \<Rightarrow> digits_value (py_strip v)
                     | None \<Rightarrow> 1);
                y = (case y of None \<Rightarrow> 1900 | Some v \<Rightarrow> v)
            in (case new_date y m d of
                  Inr _ \<Rightarrow> Some \<lparr>year = y, month = m, day = d\<rparr>
                | Inl _ \<Rightarrow> None))"

definition YEAR_PATTERN :: matcher where
  \<comment> \<open>\<open>\b(20\d{2})\b\<close>\<close>
  "YEAR_PATTERN =
     m_seqs [m_wb, m_group ''1'' (m_seqs [m_lit (str ''20''), m_cls is_decimal, m_cls is_decimal]), m_wb]"

definition year_in :: "pystr \<Rightarrow> int \<Rightarrow> int" where
  \<comment> \<open>the year after \<open>year = fallback_year\<close>, the search for \<open>YEAR_PATTERN\<close> and
      \<open>year = int(year_match.group(1))\<close>\<close>
  "year_in sanitized fallback_year =
     (case re_search YEAR_PATTERN sanitized of
        None \<Rightarrow> fallback_year
      | Some (g, caps) \<Rightarrow>
          (case map_of caps ''1'' of None \<Rightarrow> fallback_year | Some v \<Rightarrow> digits_value v))"

fun month_token :: "pystr \<Rightarrow> int \<Rightarrow> pystr list \<Rightarrow> (pystr option \<times> int) option" where
  \<comment> \<open>the loop over the tokens of \<open>extract_month_and_year\<close>; \<open>None\<close> when it runs out\<close>
  "month_token sanitized fallback_year [] = None"
| "month_token sanitized fallback_year (token # tokens) =
     (let token_clean = py_strip_chars (str ''. '') token in
      if token_clean = [] then month_token sanitized fallback_year tokens
      else
        (case strptime token_clean (str ''%B'') of
           Some parsed \<Rightarrow> Some (Some (month_name (month parsed)), year_in sanitized fallback_year)
         | None \<Rightarrow>
            (case strptime token_clean (str ''%b'') of
               Some parsed \<Rightarrow> Some (Some (month_name (month parsed)), year_in sanitized fallback_year)
             | None \<Rightarrow> month_token sanitized fallback_year tokens)))"

definition sanitize_heading :: "pystr \<Rightarrow> pystr" where
  \<comment> \<open>the first lines of \<open>extract_month_and_year\<close>: the value of \<open>sanitized\<close>\<close>
  "sanitize_heading text =
     (let sanitized = py_strip (re_sub (m_cls (\<lambda>c. c = 0x2013 \<or> c = 0x2014 \<or> c = 0x2C \<or> c = 0x2F))
                                  (str '' '') text)
      in collapse_ws sanitized)"

definition extract_month_and_year :: "pystr \<Rightarrow> int \<Rightarrow> pystr option \<times> int" where
  "extract_month_and_year text fallback_year =
     (let sanitized = sanitize_heading text
      in if sanitized = [] then (None, fallback_year)
         else
           (case strptime sanitized (str ''%B %Y'') of
              Some parsed \<Rightarrow> (Some (month_name (month parsed)), year parsed)
            | None \<Rightarrow>
               (case strptime sanitized (str ''%b %Y'') of
                  Some parsed \<Rightarrow> (Some (month_name (month parsed)), year parsed)
                | None \<Rightarrow>
                   (case month_token sanitized fallback_year (py_split_ws sanitized) of
                      Some r \<Rightarrow> r
                    | None \<Rightarrow>
                       (case re_search YEAR_PATTERN sanitized of
                          Some (g, caps) \<Rightarrow>
                            (None, (case map_of caps ''1'' of None \<Rightarrow> fallback_year
                                    | Some v \<Rightarrow> digits_value v))
                        | None \<Rightarrow> (None, fallback_year))))))"

definition WEEKDAY_PATTERN :: matcher where
  \<comment> \<open>\<open>\b(Monday|Tuesday|Wednesday|Thursday|Friday|Saturday|Sunday)\b\<close>, ignoring case\<close>
  "WEEKDAY_PATTERN =
     m_seqs [m_wb,
       m_alts (map (\<lambda>w. m_lit (str w))
         [''Monday'', ''Tuesday'', ''Wednesday'', ''Thursday'', ''Friday'', ''Saturday'', ''Sunday'']),
       m_wb]"

text \<open>
  An attempt inside \<open>try ... except ValueError: continue\<close> is \<open>None\<close> when the
  \<open>ValueError\<close> is caught and the loop goes on, and otherwise the value returned or the
  exception that leaves the function.
\<close>

fun first_attempt :: "('f \<Rightarrow> (exn + 'a) option) \<Rightarrow> 'f list \<Rightarrow> (exn + 'a) option" where
  "first_attempt f [] = None"
| "first_attempt f (x # xs) = (case f x of None \<Rightarrow> first_attempt f xs | Some r \<Rightarrow> Some r)"

definition caught :: "exn + 'a \<Rightarrow> (exn + 'a) option" where
  \<comment> \<open>\<open>except ValueError: continue\<close>\<close>
  "caught r = (case r of Inl (ValueError _) \<Rightarrow> None | _ \<Rightarrow> Some r)"

definition replace_year :: "ymd \<Rightarrow> int \<Rightarrow> exn + date" where
  \<comment> \<open>\<open>parsed.replace(year=y).date()\<close>\<close>
  "replace_year parsed y = new_date y (month parsed) (day parsed)"

definition to_date :: "ymd \<Rightarrow> date" where
  \<comment> \<open>\<open>parsed.date()\<close>\<close>
  "to_date parsed = ymd2ord (year parsed) (month parsed) (day parsed)"

definition try_with_year :: "pystr \<Rightarrow> pystr \<Rightarrow> (exn + date) option" where
  "try_with_year candidate fmt =
     (case strptime candidate fmt of None \<Rightarrow> None | Some parsed \<Rightarrow> Some (Inr (to_date parsed)))"

definition try_without_year :: "int \<Rightarrow> pystr \<Rightarrow> pystr \<Rightarrow> (exn + date) option" where
  "try_without_year current_year candidate fmt =
     (case strptime candidate fmt of
        None \<Rightarrow> None
      | Some parsed \<Rightarrow> caught (replace_year parsed current_year))"

definition try_dotted :: "int \<Rightarrow> pystr \<Rightarrow> pystr \<Rightarrow> (exn + date) option" where
  "try_dotted current_year candidate fmt =
     (case strptime candidate fmt of
        None \<Rightarrow> None
      | Some parsed \<Rightarrow>
          if \<not> py_contains (str ''%Y'') fmt \<and> \<not> py_contains (str ''%y'') fmt
          then caught (replace_year parsed current_year)
          else Some (Inr (to_date parsed)))"

definition try_candidate :: "int \<Rightarrow> pystr \<Rightarrow> (exn + date) option" where
  \<comment> \<open>the body of the loop over the candidates of \<open>parse_date\<close>\<close>
  "try_candidate current_year candidate =
     (case first_attempt (try_with_year candidate)
             (map str [''%B %d %Y'', ''%b %d %Y'', ''%d %B %Y'', ''%d %b %Y'']) of
        Some r \<Rightarrow> Some r
      | None \<Rightarrow>
         (case first_attempt (try_without_year current_year candidate)
                 (map str [''%B %d'', ''%b %d'', ''%d %B'', ''%d %b'']) of
            Some r \<Rightarrow> Some r
          | None \<Rightarrow>
             first_attempt (try_dotted current_year candidate)
               (map str [''%d.%m.%Y'', ''%d.%m.%y'', ''%d.%m.''])))"

definition py_isdigit :: "pystr \<Rightarrow> bool" where
  \<comment> \<open>\<open>s.isdigit()\<close>\<close>
  "py_isdigit s \<longleftrightarrow> s \<noteq> [] \<and> list_all py_isdigit_char s"

definition parse_date :: "pystr \<Rightarrow> pystr option \<Rightarrow> int \<Rightarrow> exn + date" where
  "parse_date date_text current_month_name current_year =
     (let cleaned = py_strip (re_sub (m_cls (\<lambda>c. c = 0xA0 \<or> c = 0x2C)) (str '' '') date_text);
          cleaned = collapse_ws cleaned;
          cleaned = py_strip (re_sub WEEKDAY_PATTERN [] cleaned);
          cleaned = collapse_ws cleaned
      in if cleaned = [] then Inl (ValueError (str ''Date text is empty''))
         else
           let candidates =
                 (if truthy current_month_name
                     \<and> \<not> py_contains (py_lower (the current_month_name)) (py_lower cleaned)
                  then [the current_month_name @ str '' '' @ cleaned] else [])
                 @ [cleaned]
           in (case first_attempt (try_candidate current_year) candidates of
                 Some r \<Rightarrow> r
               | None \<Rightarrow>
                  if py_isdigit cleaned \<and> truthy current_month_name then
                    (case strptime (the current_month_name) (str ''%B'') of
                       None \<Rightarrow>
                         Inl (ValueError (str ''time data '' @ [0x27] @ the current_month_name @ [0x27]
                                @ str '' does not match format '' @ [0x27] @ str ''%B'' @ [0x27]))
                     | Some month_dt \<Rightarrow>
                         ebind (py_int cleaned) (\<lambda>d. new_date current_year (month month_dt) d))
                  else Inl (ValueError (str ''Unable to parse date '' @ [0x27] @ date_text @ [0x27]))))"

section \<open>Descriptions\<close>

definition format_duration :: "timedelta \<Rightarrow> pystr" where
  \<comment> \<open>\<open>delta.total_seconds() // 60\<close> is exact on whole seconds\<close>
  "format_duration delta =
     (let total_minutes = delta div 60;
          hours = total_minutes div 60;
          minutes = total_minutes mod 60;
          parts = (if hours \<noteq> 0 then [py_str_int hours @ str ''h''] else []);
          parts = parts @ (if minutes \<noteq> 0 \<or> parts = [] then [py_str_int minutes @ str ''m''] else [])
      in py_join (str '' '') parts)"

definition build_description :: "pystr \<Rightarrow> pystr \<Rightarrow> pystr \<Rightarrow> pystr \<Rightarrow> pystr" where
  "build_description speaker venue link duration_text =
     (let chunks = (if speaker \<noteq> [] then [str ''Speaker: '' @ speaker] else []);
          chunks = chunks @ (if venue \<noteq> [] then [str ''Venue: '' @ venue] else []);
          chunks = chunks @ (if link \<noteq> [] then [str ''Link: '' @ link] else []);
          chunks = chunks @ (if duration_text \<noteq> [] then [str ''Duration: '' @ duration_text] else [])
      in py_join [0x0A] chunks)"

section \<open>The rows of the table\<close>

text \<open>
  What the loop of \<open>main\<close> reads from a row that \<open>BeautifulSoup\<close> hands over: for
  each \<open>td\<close> cell its \<open>stripped_strings\<close>, the texts of the \<open>strong\<close> elements, and
  the \<open>href\<close> of the first link when there is one. Reading the file, the missing
  table and the serialization of the calendar are left out.
\<close>

record raw_row =
  cells :: "pystr list list"
  strong_texts :: "pystr list"
  link_href :: "pystr option"

record event =
  ev_name :: pystr
  ev_begin :: datetime
  ev_end :: datetime
  ev_description :: pystr
  ev_location :: "pystr option"
  ev_url :: "pystr option"

record state =
  current_month_name :: "pystr option"
  current_year :: int
  cal_events :: "event list"
  created_events :: int
  skipped_details :: "pystr list"

definition clean_text :: "pystr list \<Rightarrow> pystr" where
  \<comment> \<open>\<open>clean_text\<close> of a cell, given by its \<open>stripped_strings\<close>\<close>
  "clean_text node = py_join (str '' '') node"

definition track :: "pystr option \<times> int \<Rightarrow> pystr \<Rightarrow> pystr option \<times> int" where
  \<comment> \<open>the body of the loop over the texts of a heading row, on the month and the year\<close>
  "track my text =
     (case my of (month_name0, year0) \<Rightarrow>
        (case extract_month_and_year text year0 of (month_candidate, year_candidate) \<Rightarrow>
           (if truthy month_candidate then month_candidate else month_name0,
            if year_candidate \<noteq> year0 then year_candidate else year0)))"

definition is_heading :: "raw_row \<Rightarrow> bool" where
  \<comment> \<open>\<open>strong_texts and not link_tag\<close>\<close>
  "is_heading row \<longleftrightarrow> strong_texts row \<noteq> [] \<and> link_href row = None"

definition has_digit :: "pystr \<Rightarrow> bool" where
  \<comment> \<open>\<open>any(ch.isdigit() for ch in s)\<close>\<close>
  "has_digit s = list_ex py_isdigit_char s"

definition date_token_of :: "pystr list \<Rightarrow> pystr" where
  \<comment> \<open>the first text with a digit, else the first text\<close>
  "date_token_of date_strings =
     (case find has_digit date_strings of Some v \<Rightarrow> v | None \<Rightarrow> hd date_strings)"

definition time_candidates_of :: "pystr list \<Rightarrow> pystr \<Rightarrow> pystr list" where
  \<comment> \<open>the value of \<open>time_candidates\<close> before it is tested for the last time\<close>
  "time_candidates_of date_strings date_token =
     (let date_index = index_of date_token date_strings;
          trailing_strings = drop (nat (date_index + 1)) date_strings;
          time_candidates = filter looks_like_time_range trailing_strings
      in if time_candidates = [] then
           (let fallback = (case find has_digit trailing_strings of Some v \<Rightarrow> v | None \<Rightarrow> [])
            in if fallback \<noteq> [] then [fallback] else time_candidates)
         else time_candidates)"

definition make_event :: "raw_row \<Rightarrow> datetime \<Rightarrow> datetime \<Rightarrow> event" where
  \<comment> \<open>the last part of the loop body: the event of a row whose date and time are parsed\<close>
  "make_event row start_dt end_dt =
     (let title = (if 2 < length (cells row) then clean_text (cells row ! 2) else []);
          speaker = (if 4 < length (cells row) then clean_text (cells row ! 4) else []);
          venue = (if 6 < length (cells row) then clean_text (cells row ! 6)
                   else if cells row \<noteq> [] then clean_text (last (cells row)) else []);
          link = (case link_href row of Some h \<Rightarrow> h | None \<Rightarrow> []);
          title = (if title = [] then str ''Untitled Event'' else title)
      in \<lparr>ev_name = title, ev_begin = start_dt, ev_end = end_dt,
          ev_description =
            build_description speaker venue link (format_duration (dt_sub end_dt start_dt)),
          ev_location = (if venue \<noteq> [] then Some venue else None),
          ev_url = (if link \<noteq> [] then Some link else None)\<rparr>)"

definition skip :: "state \<Rightarrow> pystr \<Rightarrow> state" where
  \<comment> \<open>\<open>skipped_details.append(reason)\<close>\<close>
  "skip st reason = st\<lparr>skipped_details := skipped_details st @ [reason]\<rparr>"

definition process_row :: "state \<Rightarrow> raw_row \<Rightarrow> exn + state" where
  \<comment> \<open>one turn of the loop of \<open>main\<close>; only a \<open>ValueError\<close> is caught\<close>
  "process_row st row =
     (if cells row = [] then Inr st
      else if is_heading row then
        (case foldl track (current_month_name st, current_year st) (strong_texts row) of
           (m, y) \<Rightarrow> Inr (st\<lparr>current_month_name := m, current_year := y\<rparr>))
      else
        let date_strings = hd (cells row) in
        if date_strings = [] then Inr st
        else if \<not> has_digit (py_join (str '' '') date_strings) then Inr st
        else
          let date_token = date_token_of date_strings in
          (case parse_date date_token (current_month_name st) (current_year st) of
             Inl (ValueError exc) \<Rightarrow>
               Inr (skip st (str ''date parse failed for '' @ [0x27] @ date_token @ [0x27]
                              @ str '': '' @ exc))
           | Inl OverflowError \<Rightarrow> Inl OverflowError
           | Inr event_date \<Rightarrow>
               let time_candidates = time_candidates_of date_strings date_token in
               if time_candidates = [] then
                 Inr (skip st (str ''missing time range for date '' @ [0x27] @ date_token @ [0x27]))
               else
                 let time_text = hd time_candidates in
                 (case parse_time_components time_text event_date of
                    Inl (ValueError exc) \<Rightarrow>
                      Inr (skip st (str ''time parse failed for '' @ [0x27] @ time_text @ [0x27]
                                     @ str '': '' @ exc))
                  | Inl OverflowError \<Rightarrow> Inl OverflowError
                  | Inr (start_dt, end_dt) \<Rightarrow>
                      Inr (st\<lparr>cal_events := cal_events st @ [make_event row start_dt end_dt],
                              created_events := created_events st + 1\<rparr>))))"

fun process_rows :: "state \<Rightarrow> raw_row list \<Rightarrow> exn + state" where
  \<comment> \<open>the loop of \<open>main\<close>: an exception that is not caught ends it\<close>
  "process_rows st [] = Inr st"
| "process_rows st (row # rows) = ebind (process_row st row) (\<lambda>st'. process_rows st' rows)"

definition main :: "int \<Rightarrow> raw_row list \<Rightarrow> exn + state" where
  \<comment> \<open>\<open>main\<close> from \<open>cal = Calendar()\<close> to the end of the loop, on the year of
      \<open>datetime.now()\<close> and the rows of the table. An exception here ends the whole run.
      A result is the state that \<open>main\<close> then hands to \<open>cal.serialize()\<close> and to the
      report, which prints \<open>created_events\<close> and \<open>skipped_details\<close>; the \<open>ics\<close> library
      behind the serialization is not part of the script and is not modelled, so a result
      says that the loop is through, not that the file is written\<close>
  "main now_year rows =
     process_rows \<lparr>current_month_name = None, current_year = now_year, cal_events = [],
                   created_events = 0, skipped_details = []\<rparr> rows"

section \<open>Notions of the specification\<close>



definition row_parses :: "pystr option \<times> int \<Rightarrow> raw_row \<Rightarrow> bool" where
  \<comment> \<open>a data row whose date text and time text both parse under a month and a year\<close>
  "row_parses my row \<longleftrightarrow>
     cells row \<noteq> [] \<and> \<not> is_heading row \<and> hd (cells row) \<noteq> [] \<and>
     has_digit (py_join (str '' '') (hd (cells row))) \<and>
     (case parse_date (date_token_of (hd (cells row))) (fst my) (snd my) of
        Inl _ \<Rightarrow> False
      | Inr event_date \<Rightarrow>
          (case time_candidates_of (hd (cells row)) (date_token_of (hd (cells row))) of
             [] \<Rightarrow> False
           | time_text # _ \<Rightarrow>
               (case parse_time_components time_text event_date of Inl _ \<Rightarrow> False | Inr _ \<Rightarrow> True)))"

fun parsed_rows :: "pystr option \<times> int \<Rightarrow> raw_row list \<Rightarrow> int" where
  \<comment> \<open>the number of rows that parse, each under the month and year of the headings
      before it\<close>
  "parsed_rows my [] = 0"
| "parsed_rows my (row # rows) =
     (if cells row \<noteq> [] \<and> is_heading row then parsed_rows (foldl track my (strong_texts row)) rows
      else (if row_parses my row then 1 else 0) + parsed_rows my rows)"

section \<open>Example rows\<close>

definition heading_may :: raw_row where
  "heading_may = \<lparr>cells = [[str ''May 2024'']], strong_texts = [str ''May 2024''], link_href = None\<rparr>"

definition row_bad_date :: raw_row where
  "row_bad_date = \<lparr>cells = [[str ''32'', str ''10 am'']], strong_texts = [], link_href = None\<rparr>"

definition row_empty_range :: raw_row where
  "row_empty_range = \<lparr>cells = [[str ''7'', str ''utc-1'']], strong_texts = [], link_href = None\<rparr>"


definition row_good :: raw_row where
  "row_good = \<lparr>cells = [[str ''Tuesday'', str ''7'', str ''2 - 3pm''], [], [str ''A talk'']],
               strong_texts = [], link_href = Some (str ''https://example.org/talk'')\<rparr>"

definition row_day_7 :: raw_row where
  "row_day_7 = \<lparr>cells = [[str ''7'', str ''14:00'']], strong_texts = [], link_href = None\<rparr>"

definition row_huge_day :: raw_row where
  "row_huge_day = \<lparr>cells = [[str ''99999999999'', str ''10 am'']], strong_texts = [], link_href = None\<rparr>"

definition row_last_hour :: raw_row where
  "row_last_hour = \<lparr>cells = [[str ''31.12.9999'', str ''23:30'']], strong_texts = [], link_href = None\<rparr>"


definition state_may :: state where
  "state_may = \<lparr>current_month_name = Some (str ''May''), current_year = 2024, cal_events = [],
                 created_events = 0, skipped_details = []\<rparr>"

section \<open>Auxiliary notions for the proofs\<close>

definition dt_wf :: "datetime \<Rightarrow> bool" where
  \<comment> \<open>the fields of a time of day are in range\<close>
  "dt_wf t \<longleftrightarrow> 0 \<le> dt_hour t \<and> dt_hour t < 24 \<and> 0 \<le> dt_minute t \<and> dt_minute t < 60
     \<and> 0 \<le> dt_second t \<and> dt_second t < 60"

definition dt_key :: "datetime \<Rightarrow> int" where
  \<comment> \<open>the seconds since the start of day 0\<close>
  "dt_key t = dt_date t * 86400 + seconds_of_day t"

section \<open>Properties of timestamps\<close>

lemma hms_split:
  fixes secs :: int
  assumes "0 \<le> secs" "secs < 86400"
  shows "0 \<le> secs div 3600" "secs div 3600 < 24" "0 \<le> secs mod 3600 div 60"
    "secs mod 3600 div 60 < 60" "0 \<le> secs mod 60" "secs mod 60 < 60"
    "secs div 3600 * 3600 + secs mod 3600 div 60 * 60 + secs mod 60 = secs"
proof -
  define q where "q = secs div 3600"
  define r where "r = secs mod 3600"
  define m where "m = r div 60"
  define u where "u = r mod 60"
  have 1: "secs = 3600 * q + r" "0 \<le> r" "r < 3600" by (simp_all add: q_def r_def)
  have 2: "r = 60 * m + u" "0 \<le> u" "u < 60" by (simp_all add: m_def u_def)
  have 3: "secs mod 60 = u" by (simp add: u_def r_def mod_mod_cancel)
  show "0 \<le> secs div 3600" "secs div 3600 < 24" using 1 assms unfolding q_def[symmetric] by linarith+
  show "0 \<le> secs mod 3600 div 60" "secs mod 3600 div 60 < 60"
    using 1 2 unfolding r_def[symmetric] m_def[symmetric] by linarith+
  show "0 \<le> secs mod 60" "secs mod 60 < 60" by simp_all
  show "secs div 3600 * 3600 + secs mod 3600 div 60 * 60 + secs mod 60 = secs"
    unfolding 3 unfolding q_def[symmetric] r_def[symmetric] m_def[symmetric] using 1 2 by linarith
qed

lemma dt_le_key: "dt_wf a \<Longrightarrow> dt_wf b \<Longrightarrow> dt_le a b \<longleftrightarrow> dt_key a \<le> dt_key b"
  unfolding dt_wf_def dt_le_def dt_key_def seconds_of_day_def
  by (cases "dt_date a < dt_date b"; cases "dt_date a = dt_date b";
      cases "dt_hour a < dt_hour b"; cases "dt_hour a = dt_hour b";
      cases "dt_minute a < dt_minute b"; cases "dt_minute a = dt_minute b") simp_all



lemma assemble_datetime_wf: "assemble_datetime d h m = Inr t \<Longrightarrow> dt_wf t"
  by (auto simp: assemble_datetime_def dt_wf_def split: if_splits)

lemma dt_add_Inr:
  assumes "dt_add t delta = Inr t'"
  shows "dt_wf t' \<and> dt_key t' = dt_key t + delta"
proof -
  define total where "total = seconds_of_day t + delta"
  define secs where "secs = total mod 86400"
  have t': "t' = \<lparr>dt_date = dt_date t + total div 86400, dt_hour = secs div 3600,
                 dt_minute = (secs mod 3600) div 60, dt_second = secs mod 60\<rparr>"
    using assms by (auto simp: dt_add_def Let_def total_def secs_def split: if_splits)
  have r: "0 \<le> secs" "secs < 86400" by (simp_all add: secs_def)
  note h = hms_split[OF r]
  have wf: "dt_wf t'" unfolding t' dt_wf_def using h(1-6) by simp
  have "secs div 3600 * 3600 + (secs mod 3600) div 60 * 60 + secs mod 60 = secs"
    by (rule h(7))
  then have "seconds_of_day t' = secs" by (simp add: t' seconds_of_day_def)
  then have "dt_key t' = (dt_date t + total div 86400) * 86400 + total mod 86400"
    by (simp add: dt_key_def t' secs_def)
  also have "\<dots> = dt_date t * 86400 + total" by (simp add: algebra_simps)
  finally show ?thesis using wf by (simp add: total_def dt_key_def)
qed


lemma single_time_less:
  assumes "single_time p d = Inr (s, e)"
  shows "dt_less s e \<and> dt_add s DEFAULT_SINGLE_EVENT_DURATION = Inr e \<and> dt_sub e s = 3600"
proof -
  from assms obtain h m where s: "assemble_datetime d h m = Inr s"
    and a: "dt_add s DEFAULT_SINGLE_EVENT_DURATION = Inr e"
    by (auto simp: single_time_def Let_def ebind_def split: sum.splits prod.splits)
  have wf: "dt_wf s" using s by (rule assemble_datetime_wf)
  have e: "dt_wf e" "dt_key e = dt_key s + 3600"
    using dt_add_Inr[OF a] by (simp_all add: DEFAULT_SINGLE_EVENT_DURATION_def)
  then have "dt_key s \<le> dt_key e" "s \<noteq> e" by auto
  then have "dt_less s e" using wf e by (simp add: dt_less_def dt_le_key)
  moreover have "dt_sub e s = dt_key e - dt_key s" by (simp add: dt_sub_def dt_key_def algebra_simps)
  ultimately show ?thesis using a e by simp
qed





lemma ex_2_3pm:
  "parse_time_components (str ''2 - 3pm'') (ymd2ord 2024 5 1) =
     Inr (\<lparr>dt_date = ymd2ord 2024 5 1, dt_hour = 14, dt_minute = 0, dt_second = 0\<rparr>,
          \<lparr>dt_date = ymd2ord 2024 5 1, dt_hour = 15, dt_minute = 0, dt_second = 0\<rparr>)"
  by code_simp

lemma ex_2_3_4:
  "range_parts (normalize_time_range (str ''2-3-4'')) = [str ''2'', str ''3'', str ''4'']"
  "parse_time_components (str ''2-3-4'') (ymd2ord 2024 5 1) =
     Inr (\<lparr>dt_date = ymd2ord 2024 5 1, dt_hour = 2, dt_minute = 0, dt_second = 0\<rparr>,
          \<lparr>dt_date = ymd2ord 2024 5 1, dt_hour = 3, dt_minute = 0, dt_second = 0\<rparr>)"
  by code_simp+

lemma ex_1400:
  "range_parts (normalize_time_range (str ''14:00'')) = [str ''14:00'']"
  "parse_time_components (str ''14:00'') (ymd2ord 2024 5 1) =
     Inr (\<lparr>dt_date = ymd2ord 2024 5 1, dt_hour = 14, dt_minute = 0, dt_second = 0\<rparr>,
          \<lparr>dt_date = ymd2ord 2024 5 1, dt_hour = 15, dt_minute = 0, dt_second = 0\<rparr>)"
  by code_simp+

lemma ex_14_3pm:
  "parse_time_components (str ''14 - 3pm'') (ymd2ord 2024 5 1) =
     Inr (\<lparr>dt_date = ymd2ord 2024 5 1, dt_hour = 14, dt_minute = 0, dt_second = 0\<rparr>,
          \<lparr>dt_date = ymd2ord 2024 5 1, dt_hour = 15, dt_minute = 0, dt_second = 0\<rparr>)"
  "parse_time_fragment (str ''14'') (Some (str ''pm'')) True = Inr (14, 0)"
  "parse_time_fragment (str ''2'') (Some (str ''pm'')) True = Inr (14, 0)"
  by code_simp+

lemma am_neq_pm: "str ''am'' \<noteq> str ''pm''" "str ''am'' \<noteq> []" "str ''pm'' \<noteq> []"
  by (simp_all add: str_def)


section \<open>The conversion to 24 hours\<close>

text \<open>
  Claim C6. \<open>convert_to_24_hour\<close> first reduces the hour modulo 24. Without a meridiem
  the reduced hour is the result; with "am" the reduced hour 12 becomes 0 and any other
  is kept; with "pm" the reduced hour 12 stays 12 and any other gets 12 added.
\<close>

theorem convert_to_24_hour_policy:
  "convert_to_24_hour hour None = hour mod 24 \<and>
   convert_to_24_hour hour (Some (str ''am'')) = (if hour mod 24 = 12 then 0 else hour mod 24) \<and>
   convert_to_24_hour hour (Some (str ''pm'')) = (if hour mod 24 = 12 then 12 else hour mod 24 + 12)"
  using am_neq_pm by (simp add: convert_to_24_hour_def Let_def)

theorem convert_to_24_hour_policy_witness:
  "convert_to_24_hour 25 None = 1 \<and>
   convert_to_24_hour 12 (Some (str ''am'')) = 0 \<and>
   convert_to_24_hour 36 (Some (str ''pm'')) = 12 \<and>
   convert_to_24_hour 3 (Some (str ''pm'')) = 15"
  using convert_to_24_hour_policy [of 25] convert_to_24_hour_policy [of 12]
    convert_to_24_hour_policy [of 36] convert_to_24_hour_policy [of 3]
  by simp

lemma extract_meridiem_label_cases:
  "extract_meridiem_label x = Some m \<Longrightarrow> m = str ''am'' \<or> m = str ''pm''"
  by (auto simp: extract_meridiem_label_def split: option.splits if_splits)

lemma extract_meridiem_label_truthy: "extract_meridiem_label x = Some m \<Longrightarrow> truthy (Some m)"
  using extract_meridiem_label_cases[of x m] am_neq_pm by (auto simp: truthy_def)


text \<open>
  Claim C10. In \<open>parse_time_fragment\<close>, on a fragment with a numeral, the meridiem that
  reaches the conversion is the default that was passed in exactly when the fragment has
  no marker of its own, the 12-hour preference is on, a default is there and the hour is
  at most 12; otherwise it is the fragment's own marker (or none). So the fragment "14"
  with the default "pm" is 14:00, and "14 - 3pm" runs from 14:00 to 15:00.
\<close>

theorem default_meridiem_guard:
  "(sanitize_time_fragment fragment \<noteq> [] \<and>
    py_lower (sanitize_time_fragment fragment) \<noteq> str ''noon'' \<and>
    py_lower (sanitize_time_fragment fragment) \<noteq> str ''midnight'' \<and>
    re_search TIME_CORE_PATTERN (sanitize_time_fragment fragment) = Some (g, caps) \<and>
    map_of caps ''hour'' = Some h \<and>
    own = extract_meridiem_label (sanitize_time_fragment fragment)
    \<longrightarrow> (\<exists>minute. parse_time_fragment fragment default_meridiem prefer_12_hour =
           Inr (convert_to_24_hour (digits_value h)
                  (if own = None \<and> prefer_12_hour \<and> truthy default_meridiem \<and> digits_value h \<le> 12
                   then default_meridiem else own), minute)))
   \<and> parse_time_fragment (str ''14'') (Some (str ''pm'')) True = Inr (14, 0)
   \<and> parse_time_components (str ''14 - 3pm'') (ymd2ord 2024 5 1) =
       Inr (\<lparr>dt_date = ymd2ord 2024 5 1, dt_hour = 14, dt_minute = 0, dt_second = 0\<rparr>,
            \<lparr>dt_date = ymd2ord 2024 5 1, dt_hour = 15, dt_minute = 0, dt_second = 0\<rparr>)"
proof (intro conjI impI)
  assume a: "sanitize_time_fragment fragment \<noteq> [] \<and>
    py_lower (sanitize_time_fragment fragment) \<noteq> str ''noon'' \<and>
    py_lower (sanitize_time_fragment fragment) \<noteq> str ''midnight'' \<and>
    re_search TIME_CORE_PATTERN (sanitize_time_fragment fragment) = Some (g, caps) \<and>
    map_of caps ''hour'' = Some h \<and>
    own = extract_meridiem_label (sanitize_time_fragment fragment)"
  show "\<exists>minute. parse_time_fragment fragment default_meridiem prefer_12_hour =
           Inr (convert_to_24_hour (digits_value h)
                  (if own = None \<and> prefer_12_hour \<and> truthy default_meridiem \<and> digits_value h \<le> 12
                   then default_meridiem else own), minute)"
  proof (cases own)
    case None
    then show ?thesis using a by (simp add: parse_time_fragment_def Let_def truthy_def)
  next
    case (Some m)
    then have e: "extract_meridiem_label (sanitize_time_fragment fragment) = Some m"
      using a by simp
    then have "truthy (Some m)" by (rule extract_meridiem_label_truthy)
    then show ?thesis using a e Some by (simp add: parse_time_fragment_def Let_def)
  qed
qed (rule ex_14_3pm)+



theorem default_meridiem_guard_witness:
  "(sanitize_time_fragment (str ''14'') \<noteq> [] \<and>
    py_lower (sanitize_time_fragment (str ''14'')) \<noteq> str ''noon'' \<and>
    py_lower (sanitize_time_fragment (str ''14'')) \<noteq> str ''midnight'' \<and>
    re_search TIME_CORE_PATTERN (sanitize_time_fragment (str ''14'')) =
      Some (str ''14'', [(''hour'', str ''14'')]) \<and>
    map_of [(''hour'', str ''14'')] ''hour'' = Some (str ''14'') \<and>
    None = extract_meridiem_label (sanitize_time_fragment (str ''14''))) \<and>
   (\<exists>minute. parse_time_fragment (str ''14'') (Some (str ''pm'')) True =
      Inr (convert_to_24_hour (digits_value (str ''14''))
             (if (None::pystr option) = None \<and> True \<and> truthy (Some (str ''pm'')) \<and> digits_value (str ''14'') \<le> 12
              then Some (str ''pm'') else None), minute))"
proof -
  have h: "sanitize_time_fragment (str ''14'') \<noteq> [] \<and>
    py_lower (sanitize_time_fragment (str ''14'')) \<noteq> str ''noon'' \<and>
    py_lower (sanitize_time_fragment (str ''14'')) \<noteq> str ''midnight'' \<and>
    re_search TIME_CORE_PATTERN (sanitize_time_fragment (str ''14'')) =
      Some (str ''14'', [(''hour'', str ''14'')]) \<and>
    map_of [(''hour'', str ''14'')] ''hour'' = Some (str ''14'') \<and>
    None = extract_meridiem_label (sanitize_time_fragment (str ''14''))"
    by code_simp
  show ?thesis
    using h default_meridiem_guard [of "str ''14''" "str ''14''" "[(''hour'', str ''14'')]"
        "str ''14''" None "Some (str ''pm'')" True]
    by blast
qed

section \<open>Time ranges\<close>




lemma range_parts_Cons: "range_parts n = x # xs \<Longrightarrow> n \<noteq> []"
  by (auto simp: range_parts_def py_strip_def strip_with_def)








text \<open>
  Claim C2. When the text has two parts and one of them alone carries a meridiem marker,
  both parts are parsed with that marker as the default meridiem and the 12-hour
  preference on. The start of "2 - 3pm" is 14:00.
\<close>

theorem meridiem_default_propagates:
  "(range_parts (normalize_time_range t) = [a, b] \<and>
      extract_meridiem_label a = None \<and> extract_meridiem_label b = Some m \<longrightarrow>
      parse_time_components t d =
        ebind (parse_time_fragment a (Some m) True) (\<lambda>start.
        ebind (parse_time_fragment b (Some m) True) (\<lambda>end. rollover d start end))) \<and>
   (range_parts (normalize_time_range t) = [a, b] \<and>
      extract_meridiem_label a = Some m \<and> extract_meridiem_label b = None \<longrightarrow>
      parse_time_components t d =
        ebind (parse_time_fragment a (Some m) True) (\<lambda>start.
        ebind (parse_time_fragment b (Some m) True) (\<lambda>end. rollover d start end))) \<and>
   parse_time_fragment (str ''2'') (Some (str ''pm'')) True = Inr (14, 0) \<and>
   parse_time_components (str ''2 - 3pm'') (ymd2ord 2024 5 1) =
     Inr (\<lparr>dt_date = ymd2ord 2024 5 1, dt_hour = 14, dt_minute = 0, dt_second = 0\<rparr>,
          \<lparr>dt_date = ymd2ord 2024 5 1, dt_hour = 15, dt_minute = 0, dt_second = 0\<rparr>)"
proof (intro conjI impI)
  assume a: "range_parts (normalize_time_range t) = [a, b] \<and>
      extract_meridiem_label a = None \<and> extract_meridiem_label b = Some m"
  then have n: "normalize_time_range t \<noteq> []" using range_parts_Cons by blast
  have "truthy (Some m)" using a extract_meridiem_label_truthy by blast
  then show "parse_time_components t d =
        ebind (parse_time_fragment a (Some m) True) (\<lambda>start.
        ebind (parse_time_fragment b (Some m) True) (\<lambda>end. rollover d start end))"
    using a n by (simp add: parse_time_components_def two_part_range_def Let_def py_or_def truthy_def)
next
  assume a: "range_parts (normalize_time_range t) = [a, b] \<and>
      extract_meridiem_label a = Some m \<and> extract_meridiem_label b = None"
  then have n: "normalize_time_range t \<noteq> []" using range_parts_Cons by blast
  have "truthy (Some m)" using a extract_meridiem_label_truthy by blast
  then show "parse_time_components t d =
        ebind (parse_time_fragment a (Some m) True) (\<lambda>start.
        ebind (parse_time_fragment b (Some m) True) (\<lambda>end. rollover d start end))"
    using a n by (simp add: parse_time_components_def two_part_range_def Let_def py_or_def truthy_def)
qed (rule ex_14_3pm ex_2_3pm)+



theorem meridiem_default_propagates_witness:
  "(range_parts (normalize_time_range (str ''2 - 3pm'')) = [str ''2'', str ''3pm''] \<and>
      extract_meridiem_label (str ''2'') = None \<and>
      extract_meridiem_label (str ''3pm'') = Some (str ''pm'')) \<and>
   parse_time_components (str ''2 - 3pm'') (ymd2ord 2024 5 1) =
     ebind (parse_time_fragment (str ''2'') (Some (str ''pm'')) True) (\<lambda>start.
     ebind (parse_time_fragment (str ''3pm'') (Some (str ''pm'')) True) (\<lambda>end.
       rollover (ymd2ord 2024 5 1) start end))"
proof -
  have h: "range_parts (normalize_time_range (str ''2 - 3pm'')) = [str ''2'', str ''3pm''] \<and>
      extract_meridiem_label (str ''2'') = None \<and>
      extract_meridiem_label (str ''3pm'') = Some (str ''pm'')"
    by code_simp
  show ?thesis
    using h meridiem_default_propagates
      [of "str ''2 - 3pm''" "str ''2''" "str ''3pm''" "str ''pm''" "ymd2ord 2024 5 1"]
    by blast
qed

lemma parse_time_fragment_error:
  "parse_time_fragment f dm p = Inl e \<Longrightarrow>
     e = ValueError (str ''Empty time fragment'') \<or>
     e = ValueError (str ''Could not parse time from '' @ [0x27] @ f @ [0x27])"
  unfolding parse_time_fragment_def Let_def
  by (simp split: if_splits option.splits prod.splits)
lemma assemble_datetime_Inl:
  "assemble_datetime d h m = Inl e \<Longrightarrow> e = ValueError (str ''minute must be in 0..59'')"
  by (simp add: assemble_datetime_def split: if_splits)

lemma dt_add_Inl: "dt_add t x = Inl e \<Longrightarrow> e = OverflowError"
  by (simp add: dt_add_def Let_def split: if_splits)

lemma rollover_error:
  assumes "rollover d st en = Inl e"
  shows "e = ValueError (str ''minute must be in 0..59'') \<or> e = OverflowError"
proof -
  obtain sh sm eh em where st: "st = (sh, sm)" and en: "en = (eh, em)"
    by (cases st; cases en) auto
  show ?thesis
  proof (cases "assemble_datetime d sh sm")
    case (Inl x)
    then show ?thesis using assms assemble_datetime_Inl[OF Inl] by (simp add: rollover_def st en ebind_def)
  next
    case s0: (Inr s0)
    show ?thesis
    proof (cases "assemble_datetime d eh em")
      case (Inl x)
      then show ?thesis using assms s0 assemble_datetime_Inl[OF Inl]
        by (simp add: rollover_def st en ebind_def)
    next
      case e0: (Inr e0)
      show ?thesis
      proof (cases "dt_add e0 one_day")
        case (Inl x)
        then show ?thesis using assms s0 e0 dt_add_Inl[OF Inl]
          by (simp add: rollover_def st en ebind_def split: if_splits)
      next
        case (Inr x)
        then show ?thesis using assms s0 e0
          by (simp add: rollover_def st en ebind_def split: if_splits)
      qed
    qed
  qed
qed
lemma msg_distinct:
  "str ''Empty time fragment'' \<noteq> str ''Unexpected time range: '' @ t"
  "str ''Could not parse time from '' @ x \<noteq> str ''Unexpected time range: '' @ t"
  "str ''minute must be in 0..59'' \<noteq> str ''Unexpected time range: '' @ t"
  by (simp_all add: str_def)

lemma two_part_range_error:
  assumes "two_part_range a b d = Inl e"
  shows "e \<noteq> ValueError (str ''Unexpected time range: '' @ t)"
proof -
  define sd where "sd = py_or (extract_meridiem_label a) (extract_meridiem_label b)"
  define ed where "ed = py_or (extract_meridiem_label b) (extract_meridiem_label a)"
  have r: "ebind (parse_time_fragment a sd (truthy sd)) (\<lambda>start.
           ebind (parse_time_fragment b ed (truthy sd)) (\<lambda>end. rollover d start end)) = Inl e"
    using assms by (simp add: two_part_range_def Let_def sd_def ed_def)
  show ?thesis
  proof (cases "parse_time_fragment a sd (truthy sd)")
    case (Inl x)
    then have "e = x" using r by (simp add: ebind_def)
    then show ?thesis using parse_time_fragment_error[OF Inl] by (auto simp: msg_distinct msg_distinct[THEN not_sym])
  next
    case s: (Inr start)
    show ?thesis
    proof (cases "parse_time_fragment b ed (truthy sd)")
      case (Inl x)
      then have "e = x" using r s by (simp add: ebind_def)
      then show ?thesis using parse_time_fragment_error[OF Inl] by (auto simp: msg_distinct msg_distinct[THEN not_sym])
    next
      case (Inr en)
      then have "rollover d start en = Inl e" using r s by (simp add: ebind_def)
      then show ?thesis using rollover_error[of d start en e] by (auto simp: msg_distinct msg_distinct[THEN not_sym])
    qed
  qed
qed

lemma m_plus_first:
  "first_match (m_plus P) prev (c # cs) =
     (if P c then Some (takeWhile P (c # cs), [], Some (last (takeWhile P (c # cs))), dropWhile P (c # cs))
      else None)"
proof (cases "P c")
  case False
  then show ?thesis by (simp add: first_match_def m_plus_def)
next
  case True
  define n where "n = length (takeWhile P cs)"
  have l: "length (takeWhile P (c # cs)) = Suc n" using True by (simp add: n_def)
  have u: "rev [1 ..< Suc (Suc n)] = Suc n # rev [1 ..< Suc n]" by simp
  have d: "drop (Suc n) (c # cs) = dropWhile P (c # cs)"
    using True by (simp add: n_def dropWhile_eq_drop)
  have t: "take (length (c # cs) - length (dropWhile P (c # cs))) (c # cs) = takeWhile P (c # cs)"
    by (metis (no_types) append_eq_conv_conj length_append add_diff_cancel_right' takeWhile_dropWhile_id)
  have la: "(c # cs) ! n = last (takeWhile P (c # cs))"
    by (metis l diff_Suc_1 last_conv_nth length_0_conv nat.simps(3) takeWhile_nth lessI)
  show ?thesis
    using True unfolding first_match_def m_plus_def
    by (simp only: prod.case l u list.map list.case d t) (simp add: la t)
qed

lemma collapse_ws_from_chars:
  "x \<in> set (re_sub_from (m_plus is_space) [0x20] prev s) \<Longrightarrow> is_space x \<Longrightarrow> x = 0x20"
proof (induction s arbitrary: prev rule: length_induct)
  case (1 s)
  show ?case
  proof (cases s)
    case Nil
    then show ?thesis using "1.prems" by simp
  next
    case (Cons c cs)
    show ?thesis
    proof (cases "is_space c")
      case False
      then have "re_sub_from (m_plus is_space) [0x20] prev s
                   = c # re_sub_from (m_plus is_space) [0x20] (Some c) cs"
        by (simp add: Cons m_plus_first)
      then show ?thesis using "1.prems" "1.IH" False Cons by auto
    next
      case True
      have sh: "length (dropWhile is_space (c # cs)) < length (c # cs)"
        using True by (simp add: le_imp_less_Suc length_dropWhile_le)
      then have "re_sub_from (m_plus is_space) [0x20] prev s
                   = [0x20] @ re_sub_from (m_plus is_space) [0x20]
                       (Some (last (takeWhile is_space (c # cs)))) (dropWhile is_space (c # cs))"
        using True by (simp add: Cons m_plus_first del: dropWhile.simps takeWhile.simps)
      then show ?thesis using "1.prems" "1.IH" sh Cons by auto
    qed
  qed
qed

lemma str_space: "str '' '' = [0x20]" "str '' -'' = [0x20, 0x2D]"
  by code_simp+

lemma collapse_ws_chars: "x \<in> set (collapse_ws s) \<Longrightarrow> is_space x \<Longrightarrow> x = 0x20"
  unfolding collapse_ws_def re_sub_def str_space by (rule collapse_ws_from_chars)

lemma strip_with_hd:
  assumes "strip_with P s \<noteq> []"
  shows "\<not> P (hd (strip_with P s)) \<and> hd (strip_with P s) \<in> set s"
proof -
  define a where "a = dropWhile P s"
  have ne: "a \<noteq> []"
  proof
    assume "a = []"
    then have "strip_with P s = []" unfolding strip_with_def a_def[symmetric] by simp
    then show False using assms by simp
  qed
  then have h: "\<not> P (hd a)" unfolding a_def by (metis hd_dropWhile)
  have "strip_with P s = rev (dropWhile P (rev a))" by (simp add: strip_with_def a_def)
  obtain b bs where a: "a = b # bs" using ne by (cases a) auto
  have "dropWhile P (rev bs @ [b]) = dropWhile P (rev bs) @ [b]"
    using h a by (simp add: dropWhile_append)
  then have "strip_with P s = b # rev (dropWhile P (rev bs))"
    by (simp add: strip_with_def a_def[symmetric] a)
  moreover have "b \<in> set s" using a unfolding a_def by (metis list.set_intros(1) set_dropWhileD)
  ultimately show ?thesis using h a by simp
qed

lemma py_strip_keeps: "p \<noteq> [] \<Longrightarrow> \<not> is_space (hd p) \<Longrightarrow> py_strip p \<noteq> []"
proof -
  assume a: "p \<noteq> []" "\<not> is_space (hd p)"
  then obtain b bs where p: "p = b # bs" by (cases p) auto
  have "dropWhile is_space (rev bs @ [b]) = dropWhile is_space (rev bs) @ [b]"
    using a p by (simp add: dropWhile_append)
  then show ?thesis using a p by (simp add: py_strip_def strip_with_def)
qed

lemma py_split_hd:
  "n \<noteq> [] \<Longrightarrow> hd n \<noteq> sep \<Longrightarrow> \<exists>p ps. py_split sep n = p # ps \<and> p \<noteq> [] \<and> hd p = hd n"
  by (cases n) (auto split: list.splits)

lemma range_parts_nonempty:
  assumes "normalize_time_range t \<noteq> []"
  shows "range_parts (normalize_time_range t) \<noteq> []"
proof -
  define n where "n = normalize_time_range t"
  obtain x where n_def': "n = py_strip_chars (str '' -'') (collapse_ws x)"
    unfolding n_def normalize_time_range_def Let_def by blast
  have ne: "n \<noteq> []" using assms by (simp add: n_def)
  have h: "hd n \<noteq> 0x20 \<and> hd n \<noteq> 0x2D \<and> hd n \<in> set (collapse_ws x)"
    using strip_with_hd[of "\<lambda>c. c \<in> set (str '' -'')" "collapse_ws x"] ne
    unfolding n_def' py_strip_chars_def str_space by auto
  then have ns: "\<not> is_space (hd n)" using collapse_ws_chars by blast
  from py_split_hd[OF ne, of "0x2D"] h obtain p ps where
    p: "py_split 0x2D n = p # ps" "p \<noteq> []" "hd p = hd n" by auto
  have "py_strip p \<noteq> []" using py_strip_keeps p ns by simp
  then show ?thesis unfolding n_def[symmetric] range_parts_def p by simp
qed

lemma empty_msg_distinct:
  "(Inl (ValueError (str ''Empty time range: '' @ t)) :: exn + 'a)
     \<noteq> Inl (ValueError (str ''Unexpected time range: '' @ u))"
  by (simp add: str_def)

lemma single_time_error:
  assumes "single_time p d = Inl e"
  shows "e \<noteq> ValueError (str ''Unexpected time range: '' @ t)"
proof -
  define hint where "hint = extract_meridiem_label p"
  have r: "ebind (parse_time_fragment p hint (truthy hint)) (\<lambda>(h, m).
           ebind (assemble_datetime d h m) (\<lambda>s.
           ebind (dt_add s DEFAULT_SINGLE_EVENT_DURATION) (\<lambda>e. Inr (s, e)))) = Inl e"
    using assms by (simp add: single_time_def Let_def hint_def)
  show ?thesis
  proof (cases "parse_time_fragment p hint (truthy hint)")
    case (Inl x)
    then have "e = x" using r by (simp add: ebind_def)
    then show ?thesis using parse_time_fragment_error[OF Inl]
      by (auto simp: msg_distinct msg_distinct[THEN not_sym])
  next
    case (Inr hm)
    obtain h m where hm: "hm = (h, m)" by (cases hm)
    show ?thesis
    proof (cases "assemble_datetime d h m")
      case (Inl x)
      then have "e = x" using r Inr hm by (simp add: ebind_def)
      then show ?thesis using assemble_datetime_Inl[OF Inl]
        by (auto simp: msg_distinct msg_distinct[THEN not_sym])
    next
      case s: (Inr s)
      then have "dt_add s DEFAULT_SINGLE_EVENT_DURATION = Inl e"
        using r Inr hm by (auto simp: ebind_def split: sum.splits)
      then show ?thesis using dt_add_Inl by blast
    qed
  qed
qed

lemma never_unexpected_range:
  "parse_time_components t d \<noteq> Inl (ValueError (str ''Unexpected time range: '' @ t))"
proof (cases "normalize_time_range t = []")
  case True
  then have e: "parse_time_components t d = Inl (ValueError (str ''Empty time range: '' @ t))"
    by (simp add: parse_time_components_def)
  show ?thesis unfolding e by (rule empty_msg_distinct)
next
  case False
  define parts where "parts = range_parts (normalize_time_range t)"
  have ne: "parts \<noteq> []" unfolding parts_def using False by (rule range_parts_nonempty)
  show ?thesis
  proof (cases "length parts = 1")
    case True
    then have "parse_time_components t d = single_time (parts ! 0) d"
      using False by (simp add: parse_time_components_def Let_def parts_def)
    then show ?thesis using single_time_error by metis
  next
    case n1: False
    then have "\<not> length parts < 2" using ne by (cases parts) auto
    then have "parse_time_components t d = two_part_range (parts ! 0) (parts ! 1) d"
      using False n1 by (simp add: parse_time_components_def Let_def parts_def)
    then show ?thesis using two_part_range_error by metis
  qed
qed

text \<open>
  Claim C3, as amended. When the text normalizes to more than two parts,
  \<open>parse_time_components\<close> returns what the first two parts give and ignores the others;
  the unexpected-range error is raised on no text at all, since a text that is not empty
  after normalization has at least one part.
\<close>

theorem extra_parts_ignored:
  "(range_parts (normalize_time_range t) = a # b # c # rest \<longrightarrow>
      parse_time_components t d = two_part_range a b d) \<and>
   parse_time_components t d \<noteq> Inl (ValueError (str ''Unexpected time range: '' @ t))"
proof (intro conjI impI)
  assume p: "range_parts (normalize_time_range t) = a # b # c # rest"
  then have n: "normalize_time_range t \<noteq> []" by (rule range_parts_Cons)
  show "parse_time_components t d = two_part_range a b d"
    using p n by (simp add: parse_time_components_def Let_def)
next
  show "parse_time_components t d \<noteq> Inl (ValueError (str ''Unexpected time range: '' @ t))"
    by (rule never_unexpected_range)
qed

theorem extra_parts_ignored_witness:
  "range_parts (normalize_time_range (str ''2-3-4'')) = [str ''2'', str ''3'', str ''4''] \<and>
   parse_time_components (str ''2-3-4'') (ymd2ord 2024 5 1) =
     two_part_range (str ''2'') (str ''3'') (ymd2ord 2024 5 1) \<and>
   parse_time_components (str ''2-3-4'') (ymd2ord 2024 5 1) \<noteq>
     Inl (ValueError (str ''Unexpected time range: '' @ str ''2-3-4''))"
  using ex_2_3_4(1) extra_parts_ignored
      [of "str ''2-3-4''" "str ''2''" "str ''3''" "str ''4''" "[]" "ymd2ord 2024 5 1"]
  by blast

text \<open>
  Claim C3 as stated fails on "2-3-4": the text has three parts and the call returns the
  pair 02:00, 03:00.
\<close>

theorem three_parts_counterexample:
  "length (range_parts (normalize_time_range (str ''2-3-4''))) = 3 \<and>
   parse_time_components (str ''2-3-4'') (ymd2ord 2024 5 1) =
     Inr (\<lparr>dt_date = ymd2ord 2024 5 1, dt_hour = 2, dt_minute = 0, dt_second = 0\<rparr>,
          \<lparr>dt_date = ymd2ord 2024 5 1, dt_hour = 3, dt_minute = 0, dt_second = 0\<rparr>)"
  using ex_2_3_4 by simp

text \<open>
  Claim C4. When the text normalizes to one part and \<open>parse_time_components\<close> returns,
  the end is the start plus the default duration, one hour: "14:00" on 2024-05-01 gives
  14:00 and 15:00.
\<close>

theorem single_time_default_duration:
  "(range_parts (normalize_time_range t) = [p] \<and> parse_time_components t d = Inr (s, e) \<longrightarrow>
      dt_add s DEFAULT_SINGLE_EVENT_DURATION = Inr e \<and> dt_sub e s = 3600) \<and>
   DEFAULT_SINGLE_EVENT_DURATION = 60 * 60 \<and>
   parse_time_components (str ''14:00'') (ymd2ord 2024 5 1) =
     Inr (\<lparr>dt_date = ymd2ord 2024 5 1, dt_hour = 14, dt_minute = 0, dt_second = 0\<rparr>,
          \<lparr>dt_date = ymd2ord 2024 5 1, dt_hour = 15, dt_minute = 0, dt_second = 0\<rparr>)"
proof (intro conjI impI)
  assume a: "range_parts (normalize_time_range t) = [p] \<and> parse_time_components t d = Inr (s, e)"
  then have "single_time p d = Inr (s, e)"
    by (auto simp: parse_time_components_def Let_def split: if_splits)
  then have r: "dt_less s e \<and> dt_add s DEFAULT_SINGLE_EVENT_DURATION = Inr e \<and> dt_sub e s = 3600"
    by (rule single_time_less)
  from r show "dt_add s DEFAULT_SINGLE_EVENT_DURATION = Inr e" by simp
  from r show "dt_sub e s = 3600" by simp
next
  show "DEFAULT_SINGLE_EVENT_DURATION = 60 * 60" by (simp add: DEFAULT_SINGLE_EVENT_DURATION_def)
qed (rule ex_1400)



theorem single_time_default_duration_witness:
  "(range_parts (normalize_time_range (str ''14:00'')) = [str ''14:00''] \<and>
    parse_time_components (str ''14:00'') (ymd2ord 2024 5 1) =
     Inr (\<lparr>dt_date = ymd2ord 2024 5 1, dt_hour = 14, dt_minute = 0, dt_second = 0\<rparr>,
          \<lparr>dt_date = ymd2ord 2024 5 1, dt_hour = 15, dt_minute = 0, dt_second = 0\<rparr>)) \<and>
   dt_sub \<lparr>dt_date = ymd2ord 2024 5 1, dt_hour = 15, dt_minute = 0, dt_second = 0\<rparr>
          \<lparr>dt_date = ymd2ord 2024 5 1, dt_hour = 14, dt_minute = 0, dt_second = 0\<rparr> = 3600"
  using ex_1400 single_time_default_duration
      [of "str ''14:00''" "str ''14:00''" "ymd2ord 2024 5 1"
          "\<lparr>dt_date = ymd2ord 2024 5 1, dt_hour = 14, dt_minute = 0, dt_second = 0\<rparr>"
          "\<lparr>dt_date = ymd2ord 2024 5 1, dt_hour = 15, dt_minute = 0, dt_second = 0\<rparr>"]
  by blast

section \<open>The month and year of the headings\<close>

lemma ex_may_2024: "extract_month_and_year (str ''May 2024'') y = (Some (str ''May''), 2024)"
  by code_simp

lemma ex_day_7: "parse_date (str ''7'') (Some (str ''May'')) 2024 = Inr (ymd2ord 2024 5 7)"
  "ymd2ord 2024 5 7 = 739013"
  by code_simp+

lemma truthy_may: "truthy (Some (str ''May''))" by code_simp


lemma ex_row_day_7:
  "cells row_day_7 \<noteq> []" "\<not> is_heading row_day_7" "hd (cells row_day_7) \<noteq> []"
  "has_digit (py_join (str '' '') (hd (cells row_day_7)))"
  "date_token_of (hd (cells row_day_7)) = str ''7''"
  "time_candidates_of (hd (cells row_day_7)) (str ''7'') = [str ''14:00'']"
  "parse_time_components (str ''14:00'') (ymd2ord 2024 5 7) =
     Inr (\<lparr>dt_date = ymd2ord 2024 5 7, dt_hour = 14, dt_minute = 0, dt_second = 0\<rparr>,
          \<lparr>dt_date = ymd2ord 2024 5 7, dt_hour = 15, dt_minute = 0, dt_second = 0\<rparr>)"
  by code_simp+

lemma ex_heading_may: "cells heading_may \<noteq> []" "strong_texts heading_may = [str ''May 2024'']"
  "link_href heading_may = None"
  by code_simp+

lemma ex_day_7_alone:
  "main 2026 [row_day_7] =
     Inr \<lparr>current_month_name = None, current_year = 2026, cal_events = [], created_events = 0,
          skipped_details =
            [str ''date parse failed for '' @ [0x27] @ str ''7'' @ [0x27]
               @ str '': Unable to parse date '' @ [0x27] @ str ''7'' @ [0x27]]\<rparr>"
  by code_simp

lemma ex_heading_day_7:
  "main 2026 [heading_may, row_day_7] =
     Inr \<lparr>current_month_name = Some (str ''May''), current_year = 2024,
          cal_events =
            [make_event row_day_7
               \<lparr>dt_date = ymd2ord 2024 5 7, dt_hour = 14, dt_minute = 0, dt_second = 0\<rparr>
               \<lparr>dt_date = ymd2ord 2024 5 7, dt_hour = 15, dt_minute = 0, dt_second = 0\<rparr>],
          created_events = 1, skipped_details = []\<rparr>"
  by code_simp

text \<open>
  Claim C5. A heading row with the text "May 2024" sets the month of the tracker to
  "May" and its year to 2024, whatever the state before. A data row whose date token is
  "7", processed in a state with that month and year, gives an event on 2024-05-07; so
  the heading row followed by this data row gives that event, from any state and in a
  run of \<open>main\<close>. The same data row without the heading before it is skipped, its date
  being unparseable without a month.
\<close>

theorem heading_then_day:
  "(cells row \<noteq> [] \<and> strong_texts row = [str ''May 2024''] \<and> link_href row = None \<longrightarrow>
      process_row st row = Inr (st\<lparr>current_month_name := Some (str ''May''), current_year := 2024\<rparr>)) \<and>
   (current_month_name st = Some (str ''May'') \<and> current_year st = 2024 \<longrightarrow>
      process_row st row_day_7 =
        Inr (st\<lparr>cal_events := cal_events st @
                  [make_event row_day_7
                     \<lparr>dt_date = ymd2ord 2024 5 7, dt_hour = 14, dt_minute = 0, dt_second = 0\<rparr>
                     \<lparr>dt_date = ymd2ord 2024 5 7, dt_hour = 15, dt_minute = 0, dt_second = 0\<rparr>],
               created_events := created_events st + 1\<rparr>)) \<and>
   process_rows st [heading_may, row_day_7] =
     Inr (st\<lparr>current_month_name := Some (str ''May''), current_year := 2024,
             cal_events := cal_events st @
                  [make_event row_day_7
                     \<lparr>dt_date = ymd2ord 2024 5 7, dt_hour = 14, dt_minute = 0, dt_second = 0\<rparr>
                     \<lparr>dt_date = ymd2ord 2024 5 7, dt_hour = 15, dt_minute = 0, dt_second = 0\<rparr>],
             created_events := created_events st + 1\<rparr>) \<and>
   main 2026 [heading_may, row_day_7] =
     Inr \<lparr>current_month_name = Some (str ''May''), current_year = 2024,
          cal_events =
            [make_event row_day_7
               \<lparr>dt_date = ymd2ord 2024 5 7, dt_hour = 14, dt_minute = 0, dt_second = 0\<rparr>
               \<lparr>dt_date = ymd2ord 2024 5 7, dt_hour = 15, dt_minute = 0, dt_second = 0\<rparr>],
          created_events = 1, skipped_details = []\<rparr> \<and>
   main 2026 [row_day_7] =
     Inr \<lparr>current_month_name = None, current_year = 2026, cal_events = [], created_events = 0,
          skipped_details =
            [str ''date parse failed for '' @ [0x27] @ str ''7'' @ [0x27]
               @ str '': Unable to parse date '' @ [0x27] @ str ''7'' @ [0x27]]\<rparr> \<and>
   parse_date (str ''7'') (Some (str ''May'')) 2024 = Inr (ymd2ord 2024 5 7)"
proof -
  have A: "\<And>row st. cells row \<noteq> [] \<and> strong_texts row = [str ''May 2024''] \<and> link_href row = None \<Longrightarrow>
      process_row st row = Inr (st\<lparr>current_month_name := Some (str ''May''), current_year := 2024\<rparr>)"
    using ex_may_2024 truthy_may by (simp add: process_row_def is_heading_def track_def)
  have B: "\<And>st. current_month_name st = Some (str ''May'') \<and> current_year st = 2024 \<Longrightarrow>
      process_row st row_day_7 =
        Inr (st\<lparr>cal_events := cal_events st @
                  [make_event row_day_7
                     \<lparr>dt_date = ymd2ord 2024 5 7, dt_hour = 14, dt_minute = 0, dt_second = 0\<rparr>
                     \<lparr>dt_date = ymd2ord 2024 5 7, dt_hour = 15, dt_minute = 0, dt_second = 0\<rparr>],
               created_events := created_events st + 1\<rparr>)"
    using ex_row_day_7 ex_day_7(1) by (simp add: process_row_def Let_def)
  have C: "process_rows st [heading_may, row_day_7] =
     Inr (st\<lparr>current_month_name := Some (str ''May''), current_year := 2024,
             cal_events := cal_events st @
                  [make_event row_day_7
                     \<lparr>dt_date = ymd2ord 2024 5 7, dt_hour = 14, dt_minute = 0, dt_second = 0\<rparr>
                     \<lparr>dt_date = ymd2ord 2024 5 7, dt_hour = 15, dt_minute = 0, dt_second = 0\<rparr>],
             created_events := created_events st + 1\<rparr>)"
    using A[of heading_may st] ex_heading_may
      B[of "st\<lparr>current_month_name := Some (str ''May''), current_year := 2024\<rparr>"]
    by (simp add: ebind_def)
  show ?thesis using A[of row st] B[of st] C ex_heading_day_7 ex_day_7_alone ex_day_7(1) by blast
qed

theorem heading_then_day_witness:
  "(cells heading_may \<noteq> [] \<and> strong_texts heading_may = [str ''May 2024''] \<and>
    link_href heading_may = None) \<and>
   (current_month_name state_may = Some (str ''May'') \<and> current_year state_may = 2024) \<and>
   process_row state_may heading_may =
     Inr (state_may\<lparr>current_month_name := Some (str ''May''), current_year := 2024\<rparr>) \<and>
   process_row state_may row_day_7 =
     Inr (state_may\<lparr>cal_events := cal_events state_may @
            [make_event row_day_7
               \<lparr>dt_date = ymd2ord 2024 5 7, dt_hour = 14, dt_minute = 0, dt_second = 0\<rparr>
               \<lparr>dt_date = ymd2ord 2024 5 7, dt_hour = 15, dt_minute = 0, dt_second = 0\<rparr>],
          created_events := created_events state_may + 1\<rparr>)"
proof -
  have h: "current_month_name state_may = Some (str ''May'') \<and> current_year state_may = 2024"
    by code_simp
  show ?thesis
    using h ex_heading_may heading_then_day [of heading_may state_may]
    by blast
qed

lemma strptime_year: "strptime s f = Some p \<Longrightarrow> 1 \<le> year p \<and> year p \<le> 9999"
  by (auto simp: strptime_def Let_def new_date_def split: option.splits if_splits sum.splits prod.splits)

lemma re_search_from_first:
  "re_search_from m prev s = Some (g, caps) \<Longrightarrow>
     \<exists>prev' s' p rest. first_match m prev' s' = Some (g, caps, p, rest)"
proof (induction s arbitrary: prev)
  case Nil
  then show ?case by (auto split: option.splits)
next
  case (Cons c cs)
  then show ?case by (auto split: option.splits)
qed

lemma lower_digit:
  "lower_char c = lower_char 0x32 \<Longrightarrow> c = 0x32" "lower_char c = lower_char 0x30 \<Longrightarrow> c = 0x30"
  by (auto simp: lower_char_def split: if_splits)

lemma str_20: "str ''20'' = [0x32, 0x30]" by code_simp

lemma m_cls_cases:
  "m_cls P (caps, prev, s) = (case s of [] \<Rightarrow> [] | c # cs \<Rightarrow> if P c then [(caps, Some c, cs)] else [])"
  by (simp add: m_cls_def)

lemma year_digits_match:
  assumes "(caps', p, rest) \<in> set (m_seqs [m_lit (str ''20''), m_cls is_decimal, m_cls is_decimal] (caps, prev, s))"
  shows "\<exists>d1 d2. s = 0x32 # 0x30 # d1 # d2 # rest \<and> is_decimal d1 \<and> is_decimal d2 \<and> caps' = caps"
  using assms unfolding str_20 m_lit_def m_seqs_def m_chr_def
  by (auto simp: m_seq_def m_eps_def m_cls_cases split: list.splits if_splits dest: lower_digit)

lemma year_pattern_match:
  assumes "first_match YEAR_PATTERN prev s = Some (g, caps, p, rest)"
  shows "\<exists>d1 d2. caps = [(''1'', [0x32, 0x30, d1, d2])] \<and> is_decimal d1 \<and> is_decimal d2"
proof -
  from assms obtain r where r: "(caps, p, rest) \<in> set (YEAR_PATTERN ([], prev, s))"
    by (auto simp: first_match_def split: list.splits)
  then obtain c1 p1 r1 where 1: "(c1, p1, r1) \<in> set (m_seqs [m_lit (str ''20''), m_cls is_decimal, m_cls is_decimal] ([], prev, s))"
      and 2: "caps = c1 @ [(''1'', take (length s - length r1) s)]"
    unfolding YEAR_PATTERN_def
    by (auto simp: m_seqs_def[of "[m_wb, _, _]"] m_seq_def m_eps_def m_wb_def m_group_def split: if_splits)
  from year_digits_match[OF 1] obtain d1 d2 where
    "s = 0x32 # 0x30 # d1 # d2 # r1" "is_decimal d1" "is_decimal d2" "c1 = []" by blast
  then show ?thesis using 2 by auto
qed


lemma year_value:
  "is_decimal d1 \<Longrightarrow> is_decimal d2 \<Longrightarrow>
     2000 \<le> digits_value [0x32, 0x30, d1, d2] \<and> digits_value [0x32, 0x30, d1, d2] \<le> 2099"
  by (simp add: digits_value_def digit_value_def is_decimal_def)

lemma year_search_value:
  assumes "re_search YEAR_PATTERN s = Some (g, caps)"
  shows "\<exists>v. map_of caps ''1'' = Some v \<and> 2000 \<le> digits_value v \<and> digits_value v \<le> 2099"
proof -
  from assms obtain prev' s' p rest where "first_match YEAR_PATTERN prev' s' = Some (g, caps, p, rest)"
    unfolding re_search_def using re_search_from_first by blast
  from year_pattern_match[OF this] obtain d1 d2 where
    "caps = [(''1'', [0x32, 0x30, d1, d2])]" "is_decimal d1" "is_decimal d2" by blast
  then show ?thesis using year_value[of d1 d2] by simp
qed

lemma year_in_bounds: "year_in s fb = fb \<or> (2000 \<le> year_in s fb \<and> year_in s fb \<le> 2099)"
proof (cases "re_search YEAR_PATTERN s")
  case None
  then show ?thesis by (simp add: year_in_def)
next
  case (Some r)
  obtain g caps where r: "r = (g, caps)" by (cases r)
  from year_search_value[OF Some[unfolded r]] show ?thesis
    using Some r by (auto simp: year_in_def)
qed

lemma month_token_year: "month_token s fb toks = Some (m, y) \<Longrightarrow> y = year_in s fb"
  by (induction toks) (auto simp: Let_def split: if_splits option.splits)

lemma extract_year:
  assumes "extract_month_and_year text fb = (m, y)"
  shows "y = fb \<or> (1 \<le> y \<and> y \<le> 9999)"
proof -
  define s where "s = sanitize_heading text"
  have yi: "year_in s fb = fb \<or> (1 \<le> year_in s fb \<and> year_in s fb \<le> 9999)"
    using year_in_bounds[of s fb] by auto
  have last: "(case re_search YEAR_PATTERN s of
                 Some (g, caps) \<Rightarrow> (case map_of caps ''1'' of None \<Rightarrow> fb | Some v \<Rightarrow> digits_value v)
               | None \<Rightarrow> fb) = year_in s fb"
    by (simp add: year_in_def split: option.splits)
  show ?thesis
  proof (cases "s = []")
    case True
    then show ?thesis using assms by (simp add: extract_month_and_year_def Let_def s_def[symmetric])
  next
    case ne: False
    show ?thesis
    proof (cases "strptime s (str ''%B %Y'')")
      case (Some p)
      then show ?thesis using assms ne strptime_year[OF Some]
        by (auto simp: extract_month_and_year_def Let_def s_def[symmetric])
    next
      case n1: None
      show ?thesis
      proof (cases "strptime s (str ''%b %Y'')")
        case (Some p)
        then show ?thesis using assms ne n1 strptime_year[OF Some]
          by (auto simp: extract_month_and_year_def Let_def s_def[symmetric])
      next
        case n2: None
        show ?thesis
        proof (cases "month_token s fb (py_split_ws s)")
          case (Some r)
          then have "r = (m, y)" using assms ne n1 n2
            by (auto simp: extract_month_and_year_def Let_def s_def[symmetric])
          then show ?thesis using month_token_year Some yi by metis
        next
          case None
          then have "y = year_in s fb" using assms ne n1 n2 last
            by (auto simp: extract_month_and_year_def Let_def s_def[symmetric] split: option.splits)
          then show ?thesis using yi by simp
        qed
      qed
    qed
  qed
qed

lemma track_year:
  "track (m, y) tx = (m', y') \<Longrightarrow> 1 \<le> y \<and> y \<le> 9999 \<Longrightarrow> 1 \<le> y' \<and> y' \<le> 9999"
  using extract_year[of tx y]
  by (cases "extract_month_and_year tx y") (auto simp: track_def split: if_splits)

lemma foldl_track_year:
  "foldl track (m, y) texts = (m', y') \<Longrightarrow> 1 \<le> y \<and> y \<le> 9999 \<Longrightarrow> 1 \<le> y' \<and> y' \<le> 9999"
proof (induction texts arbitrary: m y)
  case Nil
  then show ?case by simp
next
  case (Cons t ts)
  obtain m1 y1 where 1: "track (m, y) t = (m1, y1)" by (cases "track (m, y) t")
  then have "1 \<le> y1 \<and> y1 \<le> 9999" using Cons.prems(2) by (rule track_year)
  moreover have "foldl track (m1, y1) ts = (m', y')" using Cons.prems(1) 1 by simp
  ultimately show ?case using Cons.IH by blast
qed

lemma process_row_data:
  assumes "process_row st row = Inr st'" "\<not> (cells row \<noteq> [] \<and> is_heading row)"
  shows "current_year st' = current_year st \<and> current_month_name st' = current_month_name st"
  using assms unfolding process_row_def Let_def skip_def
  by (auto split: if_splits sum.splits exn.splits prod.splits)

lemma process_row_heading:
  assumes "cells row \<noteq> []" "is_heading row"
  shows "process_row st row =
     Inr (st\<lparr>current_month_name := fst (foldl track (current_month_name st, current_year st) (strong_texts row)),
             current_year := snd (foldl track (current_month_name st, current_year st) (strong_texts row))\<rparr>)"
  using assms by (simp add: process_row_def split: prod.splits)

lemma process_row_year:
  assumes "process_row st row = Inr st'" "1 \<le> current_year st \<and> current_year st \<le> 9999"
  shows "1 \<le> current_year st' \<and> current_year st' \<le> 9999"
proof (cases "cells row \<noteq> [] \<and> is_heading row")
  case True
  obtain m' y' where f: "foldl track (current_month_name st, current_year st) (strong_texts row) = (m', y')"
    by (cases "foldl track (current_month_name st, current_year st) (strong_texts row)")
  have "current_year st' = y'" using assms(1) True f by (auto simp: process_row_heading)
  then show ?thesis using foldl_track_year[OF f assms(2)] by simp
next
  case False
  then show ?thesis using process_row_data[OF assms(1)] assms(2) by simp
qed

lemma process_rows_year:
  "process_rows st rows = Inr st' \<Longrightarrow> 1 \<le> current_year st \<and> current_year st \<le> 9999 \<Longrightarrow>
     1 \<le> current_year st' \<and> current_year st' \<le> 9999"
proof (induction rows arbitrary: st)
  case Nil
  then show ?case by simp
next
  case (Cons r rs)
  from Cons.prems(1) obtain st1 where 1: "process_row st r = Inr st1" and 2: "process_rows st1 rs = Inr st'"
    by (auto simp: ebind_def split: sum.splits)
  show ?case using Cons.IH[OF 2] process_row_year[OF 1 Cons.prems(2)] by simp
qed


lemma ex_may_0123:
  "main 2026 [\<lparr>cells = [[str ''May 0123'']], strong_texts = [str ''May 0123''], link_href = None\<rparr>] =
     Inr \<lparr>current_month_name = Some (str ''May''), current_year = 123, cal_events = [],
          created_events = 0, skipped_details = []\<rparr>"
  by code_simp


lemma extract_year_search:
  assumes "extract_month_and_year tx fb = (m, y)"
    "strptime (sanitize_heading tx) (str ''%B %Y'') = None"
    "strptime (sanitize_heading tx) (str ''%b %Y'') = None"
  shows "y = fb \<or> (2000 \<le> y \<and> y \<le> 2099)"
proof -
  define s where "s = sanitize_heading tx"
  note yi = year_in_bounds[of s fb]
  have last: "(case re_search YEAR_PATTERN s of
                 Some (g, caps) \<Rightarrow> (case map_of caps ''1'' of None \<Rightarrow> fb | Some v \<Rightarrow> digits_value v)
               | None \<Rightarrow> fb) = year_in s fb"
    by (simp add: year_in_def split: option.splits)
  show ?thesis
  proof (cases "s = []")
    case True
    then show ?thesis using assms(1) by (simp add: extract_month_and_year_def Let_def s_def[symmetric])
  next
    case ne: False
    show ?thesis
    proof (cases "month_token s fb (py_split_ws s)")
      case (Some r)
      then have "r = (m, y)" using assms ne
        by (auto simp: extract_month_and_year_def Let_def s_def[symmetric])
      then show ?thesis using month_token_year Some yi by metis
    next
      case None
      then have "y = year_in s fb" using assms ne last
        by (auto simp: extract_month_and_year_def Let_def s_def[symmetric] split: option.splits)
      then show ?thesis using yi by simp
    qed
  qed
qed

lemma extract_year_full:
  assumes "sanitize_heading tx \<noteq> []" "strptime (sanitize_heading tx) (str ''%B %Y'') = Some p"
  shows "extract_month_and_year tx fb = (Some (month_name (month p)), year p) \<and>
         1 \<le> year p \<and> year p \<le> 9999"
  using assms strptime_year[OF assms(2)] by (simp add: extract_month_and_year_def Let_def)

lemma extract_year_abbreviated:
  assumes "sanitize_heading tx \<noteq> []" "strptime (sanitize_heading tx) (str ''%B %Y'') = None"
    "strptime (sanitize_heading tx) (str ''%b %Y'') = Some p"
  shows "extract_month_and_year tx fb = (Some (month_name (month p)), year p) \<and>
         1 \<le> year p \<and> year p \<le> 9999"
  using assms strptime_year[OF assms(3)] by (simp add: extract_month_and_year_def Let_def)

lemma ex_winter_term:
  "extract_month_and_year (str ''Winter term 2025'') 2026 = (None, 2025)"
  "strptime (sanitize_heading (str ''Winter term 2025'')) (str ''%B %Y'') = None"
  "strptime (sanitize_heading (str ''Winter term 2025'')) (str ''%b %Y'') = None"
  by code_simp+

lemma ex_may_0123_heading:
  "sanitize_heading (str ''May 0123'') \<noteq> []"
  "strptime (sanitize_heading (str ''May 0123'')) (str ''%B %Y'') = Some \<lparr>year = 123, month = 5, day = 1\<rparr>"
  "month_name 5 = str ''May''"
  by code_simp+

text \<open>
  Claim C7, as amended. The year of the tracker stays within 1..9999, the years of
  \<open>datetime\<close>, when the year it starts from is: it starts as the year of the clock, only
  a heading row changes it, and a heading row sets it to the year that
  \<open>extract_month_and_year\<close> reads from its texts. That year is the fallback year or a
  year within 1..9999: the year that \<open>strptime\<close> reads when the sanitized text is a
  month name and four digits, and a year within 2000..2099 when it is not. It need not
  have four digits.
\<close>

theorem tracker_year_range:
  "(1 \<le> now_year \<and> now_year \<le> 9999 \<and> main now_year rows = Inr st' \<longrightarrow>
      1 \<le> current_year st' \<and> current_year st' \<le> 9999) \<and>
   (1 \<le> current_year st \<and> current_year st \<le> 9999 \<and> process_rows st rows = Inr st' \<longrightarrow>
      1 \<le> current_year st' \<and> current_year st' \<le> 9999) \<and>
   (process_row st row = Inr st' \<and> \<not> (cells row \<noteq> [] \<and> is_heading row) \<longrightarrow>
      current_year st' = current_year st) \<and>
   (process_row st row = Inr st' \<and> cells row \<noteq> [] \<and> is_heading row \<longrightarrow>
      current_year st' = snd (foldl track (current_month_name st, current_year st) (strong_texts row))) \<and>
   (extract_month_and_year text fallback_year = (m, y) \<longrightarrow>
      y = fallback_year \<or> (1 \<le> y \<and> y \<le> 9999)) \<and>
   (extract_month_and_year text fallback_year = (m, y) \<and>
    strptime (sanitize_heading text) (str ''%B %Y'') = None \<and>
    strptime (sanitize_heading text) (str ''%b %Y'') = None \<longrightarrow>
      y = fallback_year \<or> (2000 \<le> y \<and> y \<le> 2099)) \<and>
   (sanitize_heading text \<noteq> [] \<and> strptime (sanitize_heading text) (str ''%B %Y'') = Some p \<longrightarrow>
      extract_month_and_year text fallback_year = (Some (month_name (month p)), year p) \<and>
      1 \<le> year p \<and> year p \<le> 9999) \<and>
   (sanitize_heading text \<noteq> [] \<and> strptime (sanitize_heading text) (str ''%B %Y'') = None \<and>
    strptime (sanitize_heading text) (str ''%b %Y'') = Some p \<longrightarrow>
      extract_month_and_year text fallback_year = (Some (month_name (month p)), year p) \<and>
      1 \<le> year p \<and> year p \<le> 9999)"
proof (intro conjI impI)
  assume a: "1 \<le> now_year \<and> now_year \<le> 9999 \<and> main now_year rows = Inr st'"
  then have "1 \<le> current_year st' \<and> current_year st' \<le> 9999"
    unfolding main_def using process_rows_year by fastforce
  then show "1 \<le> current_year st'" "current_year st' \<le> 9999" by simp_all
next
  assume a: "1 \<le> current_year st \<and> current_year st \<le> 9999 \<and> process_rows st rows = Inr st'"
  then have "1 \<le> current_year st' \<and> current_year st' \<le> 9999"
    using process_rows_year by blast
  then show "1 \<le> current_year st'" "current_year st' \<le> 9999" by simp_all
next
  assume "process_row st row = Inr st' \<and> \<not> (cells row \<noteq> [] \<and> is_heading row)"
  then show "current_year st' = current_year st" using process_row_data by blast
next
  assume "process_row st row = Inr st' \<and> cells row \<noteq> [] \<and> is_heading row"
  then show "current_year st' = snd (foldl track (current_month_name st, current_year st) (strong_texts row))"
    by (auto simp: process_row_heading)
next
  assume "extract_month_and_year text fallback_year = (m, y)"
  then show "y = fallback_year \<or> (1 \<le> y \<and> y \<le> 9999)" by (rule extract_year)
next
  assume "extract_month_and_year text fallback_year = (m, y) \<and>
    strptime (sanitize_heading text) (str ''%B %Y'') = None \<and>
    strptime (sanitize_heading text) (str ''%b %Y'') = None"
  then show "y = fallback_year \<or> (2000 \<le> y \<and> y \<le> 2099)"
    using extract_year_search by blast
next
  assume a: "sanitize_heading text \<noteq> [] \<and> strptime (sanitize_heading text) (str ''%B %Y'') = Some p"
  then have r: "extract_month_and_year text fallback_year = (Some (month_name (month p)), year p) \<and>
      1 \<le> year p \<and> year p \<le> 9999"
    using extract_year_full by blast
  from r show "extract_month_and_year text fallback_year = (Some (month_name (month p)), year p)"
    by simp
  from r show "1 \<le> year p" "year p \<le> 9999" by simp_all
next
  assume a: "sanitize_heading text \<noteq> [] \<and> strptime (sanitize_heading text) (str ''%B %Y'') = None \<and>
    strptime (sanitize_heading text) (str ''%b %Y'') = Some p"
  then have r: "extract_month_and_year text fallback_year = (Some (month_name (month p)), year p) \<and>
      1 \<le> year p \<and> year p \<le> 9999"
    using extract_year_abbreviated by blast
  from r show "extract_month_and_year text fallback_year = (Some (month_name (month p)), year p)"
    by simp
  from r show "1 \<le> year p" "year p \<le> 9999" by simp_all
qed

theorem tracker_year_range_witness:
  "(1 \<le> (2026::int) \<and> (2026::int) \<le> 9999 \<and>
    main 2026 [\<lparr>cells = [[str ''May 0123'']], strong_texts = [str ''May 0123''], link_href = None\<rparr>] =
      Inr \<lparr>current_month_name = Some (str ''May''), current_year = 123, cal_events = [],
           created_events = 0, skipped_details = []\<rparr>) \<and>
   1 \<le> current_year \<lparr>current_month_name = Some (str ''May''), current_year = 123, cal_events = [],
           created_events = 0, skipped_details = []\<rparr> \<and>
   current_year \<lparr>current_month_name = Some (str ''May''), current_year = 123, cal_events = [],
           created_events = 0, skipped_details = []\<rparr> \<le> 9999 \<and>
   (sanitize_heading (str ''May 0123'') \<noteq> [] \<and>
    strptime (sanitize_heading (str ''May 0123'')) (str ''%B %Y'') =
      Some \<lparr>year = 123, month = 5, day = 1\<rparr>) \<and>
   extract_month_and_year (str ''May 0123'') 2026 = (Some (str ''May''), 123) \<and>
   (extract_month_and_year (str ''Winter term 2025'') 2026 = (None, 2025) \<and>
    strptime (sanitize_heading (str ''Winter term 2025'')) (str ''%B %Y'') = None \<and>
    strptime (sanitize_heading (str ''Winter term 2025'')) (str ''%b %Y'') = None) \<and>
   ((2025::int) = 2026 \<or> (2000 \<le> (2025::int) \<and> (2025::int) \<le> 2099))"
  using ex_may_0123 ex_may_0123_heading ex_winter_term
    tracker_year_range
      [of 2026 "[\<lparr>cells = [[str ''May 0123'']], strong_texts = [str ''May 0123''], link_href = None\<rparr>]"
          "\<lparr>current_month_name = Some (str ''May''), current_year = 123, cal_events = [],
            created_events = 0, skipped_details = []\<rparr>"
          "\<lparr>current_month_name = None, current_year = 2026, cal_events = [],
            created_events = 0, skipped_details = []\<rparr>"
          "\<lparr>cells = [[str ''May 0123'']], strong_texts = [str ''May 0123''], link_href = None\<rparr>"
          "str ''May 0123''" 2026 "Some (str ''May'')" 123 "\<lparr>year = 123, month = 5, day = 1\<rparr>"]
    tracker_year_range
      [of 2026 "[\<lparr>cells = [[str ''May 0123'']], strong_texts = [str ''May 0123''], link_href = None\<rparr>]"
          "\<lparr>current_month_name = Some (str ''May''), current_year = 123, cal_events = [],
            created_events = 0, skipped_details = []\<rparr>"
          "\<lparr>current_month_name = None, current_year = 2026, cal_events = [],
            created_events = 0, skipped_details = []\<rparr>"
          "\<lparr>cells = [[str ''May 0123'']], strong_texts = [str ''May 0123''], link_href = None\<rparr>"
          "str ''Winter term 2025''" 2026 None 2025 "\<lparr>year = 123, month = 5, day = 1\<rparr>"]
  by simp

text \<open>
  Claim C7 as stated fails: after the heading "May 0123" the year of the tracker is 123,
  which is no four-digit value.
\<close>

theorem year_not_four_digits_counterexample:
  "main 2026 [\<lparr>cells = [[str ''May 0123'']], strong_texts = [str ''May 0123''], link_href = None\<rparr>] =
     Inr \<lparr>current_month_name = Some (str ''May''), current_year = 123, cal_events = [],
          created_events = 0, skipped_details = []\<rparr> \<and>
   \<not> 1000 \<le> current_year \<lparr>current_month_name = Some (str ''May''), current_year = 123,
          cal_events = [], created_events = 0, skipped_details = []\<rparr>"
  using ex_may_0123 by simp


section \<open>The loop over the rows\<close>

lemma process_row_no_ValueError: "process_row st row \<noteq> Inl (ValueError msg)"
  unfolding process_row_def Let_def
  by (auto split: if_splits sum.splits exn.splits prod.splits)

lemma process_rows_no_ValueError: "process_rows st rows \<noteq> Inl (ValueError msg)"
proof (induction rows arbitrary: st)
  case Nil
  then show ?case by simp
next
  case (Cons r rs)
  show ?case
  proof (cases "process_row st r")
    case (Inl e)
    then show ?thesis using process_row_no_ValueError[of st r msg] by (simp add: ebind_def)
  next
    case (Inr st1)
    then show ?thesis using Cons.IH[of st1] by (simp add: ebind_def)
  qed
qed

lemma process_rows_total:
  "(\<exists>fin. process_rows st rows = Inr fin) \<or> process_rows st rows = Inl OverflowError"
proof (cases "process_rows st rows")
  case (Inl e)
  then show ?thesis using process_rows_no_ValueError[of st rows] by (cases e) auto
next
  case (Inr fin)
  then show ?thesis by simp
qed

lemma date_failure_skips:
  assumes "cells row \<noteq> []" "\<not> is_heading row" "hd (cells row) \<noteq> []"
    "has_digit (py_join (str '' '') (hd (cells row)))"
    "parse_date (date_token_of (hd (cells row))) (current_month_name st) (current_year st)
       = Inl (ValueError exc)"
  shows "process_row st row =
     Inr (skip st (str ''date parse failed for '' @ [0x27] @ date_token_of (hd (cells row)) @ [0x27]
                    @ str '': '' @ exc))"
  using assms by (simp add: process_row_def Let_def)

lemma time_failure_skips:
  assumes "cells row \<noteq> []" "\<not> is_heading row" "hd (cells row) \<noteq> []"
    "has_digit (py_join (str '' '') (hd (cells row)))"
    "parse_date (date_token_of (hd (cells row))) (current_month_name st) (current_year st)
       = Inr event_date"
    "time_candidates_of (hd (cells row)) (date_token_of (hd (cells row))) = time_text # others"
    "parse_time_components time_text event_date = Inl (ValueError exc)"
  shows "process_row st row =
     Inr (skip st (str ''time parse failed for '' @ [0x27] @ time_text @ [0x27] @ str '': '' @ exc))"
  using assms by (simp add: process_row_def Let_def)

lemma process_row_count:
  assumes "process_row st row = Inr st'" "\<not> (cells row \<noteq> [] \<and> is_heading row)"
  shows "created_events st' =
           created_events st + (if row_parses (current_month_name st, current_year st) row then 1 else 0)
         \<and> int (length (cal_events st')) - created_events st'
             = int (length (cal_events st)) - created_events st"
  using assms unfolding process_row_def Let_def skip_def row_parses_def
  by (auto split: if_splits sum.splits exn.splits prod.splits list.splits)

lemma process_row_heading_count:
  assumes "cells row \<noteq> []" "is_heading row" "process_row st row = Inr st'"
  shows "created_events st' = created_events st \<and> cal_events st' = cal_events st \<and>
         (current_month_name st', current_year st')
           = foldl track (current_month_name st, current_year st) (strong_texts row)"
  using assms by (auto simp: process_row_heading)

lemma process_rows_count:
  "process_rows st rows = Inr fin \<Longrightarrow>
     created_events fin = created_events st + parsed_rows (current_month_name st, current_year st) rows
     \<and> int (length (cal_events fin)) - created_events fin
          = int (length (cal_events st)) - created_events st"
proof (induction rows arbitrary: st)
  case Nil
  then show ?case by simp
next
  case (Cons r rs)
  from Cons.prems obtain st1 where 1: "process_row st r = Inr st1" and 2: "process_rows st1 rs = Inr fin"
    by (auto simp: ebind_def split: sum.splits)
  note ih = Cons.IH[OF 2]
  show ?case
  proof (cases "cells r \<noteq> [] \<and> is_heading r")
    case True
    then show ?thesis using ih process_row_heading_count[OF _ _ 1] by simp
  next
    case False
    have c: "created_events st1 =
           created_events st + (if row_parses (current_month_name st, current_year st) r then 1 else 0)"
      and l: "int (length (cal_events st1)) - created_events st1
             = int (length (cal_events st)) - created_events st"
      using process_row_count[OF 1 False] by simp_all
    have tr: "(current_month_name st1, current_year st1) = (current_month_name st, current_year st)"
      using process_row_data[OF 1 False] by simp
    have p: "parsed_rows (current_month_name st, current_year st) (r # rs) =
          (if row_parses (current_month_name st, current_year st) r then 1 else 0)
          + parsed_rows (current_month_name st, current_year st) rs"
      using False by auto
    show ?thesis unfolding p using ih c l unfolding tr[symmetric] by linarith
  qed
qed

lemma ex_bad_date:
  "cells row_bad_date \<noteq> [] \<and> \<not> is_heading row_bad_date \<and> hd (cells row_bad_date) \<noteq> [] \<and>
    has_digit (py_join (str '' '') (hd (cells row_bad_date))) \<and>
    parse_date (date_token_of (hd (cells row_bad_date))) (current_month_name state_may) (current_year state_may)
      = Inl (ValueError (str ''day is out of range for month''))"
  by code_simp

lemma ex_empty_range:
  "cells row_empty_range \<noteq> [] \<and> \<not> is_heading row_empty_range \<and> hd (cells row_empty_range) \<noteq> [] \<and>
    has_digit (py_join (str '' '') (hd (cells row_empty_range))) \<and>
    parse_date (date_token_of (hd (cells row_empty_range))) (current_month_name state_may) (current_year state_may)
      = Inr (ymd2ord 2024 5 7) \<and>
    time_candidates_of (hd (cells row_empty_range)) (date_token_of (hd (cells row_empty_range)))
      = str ''utc-1'' # [] \<and>
    parse_time_components (str ''utc-1'') (ymd2ord 2024 5 7)
      = Inl (ValueError (str ''Empty time range: utc-1''))"
  by code_simp



text \<open>
  What the loop does with a \<open>ValueError\<close>. When the date or the time of a data row
  raises one (the empty date text and the unparseable date, the empty range and the
  unparseable fragment are all of this kind), the row is skipped: a reason naming the
  text and the message is appended to \<open>skipped_details\<close>, nothing else of the state
  changes, and the loop goes on with the rows after it. No \<open>ValueError\<close> leaves the
  loop: it returns unless a row raises \<open>OverflowError\<close>. The count after a loop that
  returns is the number of rows that parse, and the number of events made.
\<close>

lemma value_errors_are_skipped:
  "(cells row \<noteq> [] \<and> \<not> is_heading row \<and> hd (cells row) \<noteq> [] \<and>
    has_digit (py_join (str '' '') (hd (cells row))) \<and>
    parse_date (date_token_of (hd (cells row))) (current_month_name st) (current_year st)
      = Inl (ValueError exc) \<longrightarrow>
    process_rows st (row # rows) =
      process_rows
        (st\<lparr>skipped_details := skipped_details st @
            [str ''date parse failed for '' @ [0x27] @ date_token_of (hd (cells row))
               @ [0x27] @ str '': '' @ exc]\<rparr>) rows) \<and>
   (cells row \<noteq> [] \<and> \<not> is_heading row \<and> hd (cells row) \<noteq> [] \<and>
    has_digit (py_join (str '' '') (hd (cells row))) \<and>
    parse_date (date_token_of (hd (cells row))) (current_month_name st) (current_year st)
      = Inr event_date \<and>
    time_candidates_of (hd (cells row)) (date_token_of (hd (cells row))) = time_text # others \<and>
    parse_time_components time_text event_date = Inl (ValueError exc) \<longrightarrow>
    process_rows st (row # rows) =
      process_rows
        (st\<lparr>skipped_details := skipped_details st @
            [str ''time parse failed for '' @ [0x27] @ time_text @ [0x27] @ str '': '' @ exc]\<rparr>) rows) \<and>
   ((\<exists>fin. main now_year rows = Inr fin) \<or> main now_year rows = Inl OverflowError) \<and>
   (main now_year rows = Inr fin \<longrightarrow>
      created_events fin = parsed_rows (None, now_year) rows \<and>
      created_events fin = int (length (cal_events fin)))"
proof (intro conjI impI)
  assume "cells row \<noteq> [] \<and> \<not> is_heading row \<and> hd (cells row) \<noteq> [] \<and>
    has_digit (py_join (str '' '') (hd (cells row))) \<and>
    parse_date (date_token_of (hd (cells row))) (current_month_name st) (current_year st)
      = Inl (ValueError exc)"
  then have "process_row st row =
     Inr (skip st (str ''date parse failed for '' @ [0x27] @ date_token_of (hd (cells row)) @ [0x27]
                    @ str '': '' @ exc))"
    using date_failure_skips by blast
  then show "process_rows st (row # rows) =
      process_rows
        (st\<lparr>skipped_details := skipped_details st @
            [str ''date parse failed for '' @ [0x27] @ date_token_of (hd (cells row))
               @ [0x27] @ str '': '' @ exc]\<rparr>) rows"
    by (simp add: ebind_def skip_def)
next
  assume "cells row \<noteq> [] \<and> \<not> is_heading row \<and> hd (cells row) \<noteq> [] \<and>
    has_digit (py_join (str '' '') (hd (cells row))) \<and>
    parse_date (date_token_of (hd (cells row))) (current_month_name st) (current_year st)
      = Inr event_date \<and>
    time_candidates_of (hd (cells row)) (date_token_of (hd (cells row))) = time_text # others \<and>
    parse_time_components time_text event_date = Inl (ValueError exc)"
  then have "process_row st row =
     Inr (skip st (str ''time parse failed for '' @ [0x27] @ time_text @ [0x27] @ str '': '' @ exc))"
    using time_failure_skips by blast
  then show "process_rows st (row # rows) =
      process_rows
        (st\<lparr>skipped_details := skipped_details st @
            [str ''time parse failed for '' @ [0x27] @ time_text @ [0x27] @ str '': '' @ exc]\<rparr>) rows"
    by (simp add: ebind_def skip_def)
next
  show "(\<exists>fin. main now_year rows = Inr fin) \<or> main now_year rows = Inl OverflowError"
    unfolding main_def by (rule process_rows_total)
next
  assume a: "main now_year rows = Inr fin"
  from process_rows_count[OF a[unfolded main_def]]
  show "created_events fin = parsed_rows (None, now_year) rows"
    and "created_events fin = int (length (cal_events fin))"
    by simp_all
qed



lemma ex_overflow:
  "parse_date (str ''99999999999'') (Some (str ''May'')) 2024 = Inl OverflowError"
  "main 2026 [heading_may, row_huge_day, row_good] = Inl OverflowError"
  "main 2026 [row_last_hour] = Inl OverflowError"
  "\<not> isl (main 2026 [heading_may, row_bad_date, row_good])"
  "created_events (projr (main 2026 [heading_may, row_bad_date, row_good])) = 1"
  "skipped_details (projr (main 2026 [heading_may, row_bad_date, row_good])) =
     [str ''date parse failed for '' @ [0x27] @ str ''32'' @ [0x27] @ str '': day is out of range for month'']"
  "\<not> isl (main 2026 [heading_may, row_good])"
  "created_events (projr (main 2026 [heading_may, row_good])) = 1"
  by code_simp+

text \<open>
  Claim C8. The claim holds of the failures that are a \<open>ValueError\<close>, as shown above,
  and fails on the others: the loop catches nothing else. A date token that is a day
  number beyond the C integers makes \<open>parse_date\<close> raise \<open>OverflowError\<close>; the
  exception leaves the loop and ends the run, although the row after it would have given
  an event. The day number 32 in the same place is a \<open>ValueError\<close>: that row is skipped
  and the next one gives its event. A single time in the last hour of 9999-12-31 ends the
  run in the same way, in \<open>parse_time_components\<close>.
\<close>

theorem overflow_error_ends_the_run:
  "parse_date (str ''99999999999'') (Some (str ''May'')) 2024 = Inl OverflowError \<and>
   main 2026 [heading_may, row_huge_day, row_good] = Inl OverflowError \<and>
   main 2026 [heading_may, row_good] = Inr (projr (main 2026 [heading_may, row_good])) \<and>
   created_events (projr (main 2026 [heading_may, row_good])) = 1 \<and>
   main 2026 [heading_may, row_bad_date, row_good] =
     Inr (projr (main 2026 [heading_may, row_bad_date, row_good])) \<and>
   created_events (projr (main 2026 [heading_may, row_bad_date, row_good])) = 1 \<and>
   skipped_details (projr (main 2026 [heading_may, row_bad_date, row_good])) =
     [str ''date parse failed for '' @ [0x27] @ str ''32'' @ [0x27] @ str '': day is out of range for month''] \<and>
   main 2026 [row_last_hour] = Inl OverflowError"
  using ex_overflow by simp

section \<open>Durations\<close>




























end
